theory Spec2Isabelle
  imports Main "HOL-Library.Multiset"
begin

section \<open>JSON-like trees and the Python operations the converters use on them\<close>

text \<open>
  The raw input of every \<open>from_json\<close> and the output of every \<open>to_json\<close> is a tree of
  Python values as a JSON parser builds it. A dict keeps its insertion order, so it is an
  association list; Python's \<open>None\<close> is \<open>JNull\<close>. Floating point numbers are left out
  (no converter of the source computes with a number).
\<close>

datatype json =
    JNull
  | JBool bool
  | JInt int
  | JStr string
  | JList "json list"
  | JDict "(string \<times> json) list"

text \<open>Python truth value testing (\<open>if x:\<close>, \<open>not x\<close>, \<open>all([...])\<close>).\<close>

fun truthy :: "json \<Rightarrow> bool" where
  "truthy JNull = False"
| "truthy (JBool b) = b"
| "truthy (JInt i) = (i \<noteq> 0)"
| "truthy (JStr s) = (s \<noteq> [])"
| "truthy (JList xs) = (xs \<noteq> [])"
| "truthy (JDict d) = (d \<noteq> [])"

text \<open>
  \<open>ValidationErrorInfo(field, message)\<close> of \<open>mibig.errors\<close>. A message is a literal or an
  f-string \<open>f"<text>{value}"\<close>; the formatted value is kept as it is, not rendered.
\<close>

datatype message = Text string | FString string json

datatype ValidationErrorInfo = ValidationErrorInfo string message

text \<open>The exceptions the modelled code raises; \<open>Inl\<close> of a result is a raised exception.\<close>

datatype error =
    KeyError string
  | TypeError
  | ValueError json
  | ValidationError "ValidationErrorInfo list"
  | MibigError string
  | NameError string

definition and_then :: "error + 'a \<Rightarrow> ('a \<Rightarrow> error + 'b) \<Rightarrow> error + 'b" where
  "and_then r f = (case r of Inl e \<Rightarrow> Inl e | Inr x \<Rightarrow> f x)"

text \<open>\<open>d[k]\<close>, \<open>d.get(k)\<close> and \<open>d.get(k, default)\<close> on a dict.\<close>

definition getitem :: "(string \<times> json) list \<Rightarrow> string \<Rightarrow> error + json" where
  "getitem d k = (case map_of d k of None \<Rightarrow> Inl (KeyError k) | Some v \<Rightarrow> Inr v)"

definition dict_get_default :: "(string \<times> json) list \<Rightarrow> string \<Rightarrow> json \<Rightarrow> json" where
  "dict_get_default d k dflt = (case map_of d k of None \<Rightarrow> dflt | Some v \<Rightarrow> v)"

definition dict_get :: "(string \<times> json) list \<Rightarrow> string \<Rightarrow> json" where
  "dict_get d k = dict_get_default d k JNull"

text \<open>
  Iteration (\<open>for x in v\<close>): a list gives its elements, a string its characters (here the
  characters of a \<open>string\<close>, which are bytes), a dict its keys; anything else is not iterable.
\<close>

fun py_iter :: "json \<Rightarrow> error + json list" where
  "py_iter (JList xs) = Inr xs"
| "py_iter (JStr s) = Inr (map (\<lambda>c. JStr [c]) s)"
| "py_iter (JDict d) = Inr (map (\<lambda>kv. JStr (fst kv)) d)"
| "py_iter JNull = Inl TypeError"
| "py_iter (JBool b) = Inl TypeError"
| "py_iter (JInt i) = Inl TypeError"

text \<open>A list comprehension \<open>[f(x) for x in xs]\<close> whose \<open>f\<close> may raise: the first exception ends it.\<close>

fun map_result :: "('a \<Rightarrow> error + 'b) \<Rightarrow> 'a list \<Rightarrow> error + 'b list" where
  "map_result f [] = Inr []"
| "map_result f (x # xs) =
     and_then (f x) (\<lambda>y. and_then (map_result f xs) (\<lambda>ys. Inr (y # ys)))"

text \<open>
  \<open>d[k] = v\<close> keeps the place of a key that is there and appends a new one;
  \<open>{**d, **e}\<close> stores the items of \<open>e\<close> into \<open>d\<close> one after the other.
\<close>

fun setitem :: "(string \<times> json) list \<Rightarrow> string \<Rightarrow> json \<Rightarrow> (string \<times> json) list" where
  "setitem [] k v = [(k, v)]"
| "setitem (p # ps) k v = (if fst p = k then (k, v) # ps else p # setitem ps k v)"

definition dict_merge :: "(string \<times> json) list \<Rightarrow> (string \<times> json) list \<Rightarrow> (string \<times> json) list" where
  "dict_merge d e = fold (\<lambda>kv acc. setitem acc (fst kv) (snd kv)) e d"

text \<open>
  What a tree denotes: a dict is a finite map, so two trees with the same denotation
  differ at most in the order of their keys. Python's \<open>==\<close> on dicts ignores that order.
\<close>

datatype jv =
    VNull
  | VBool bool
  | VInt int
  | VStr string
  | VList "jv list"
  | VDict "string \<Rightarrow> jv option"

primrec sem :: "json \<Rightarrow> jv" where
  "sem JNull = VNull"
| "sem (JBool b) = VBool b"
| "sem (JInt i) = VInt i"
| "sem (JStr s) = VStr s"
| "sem (JList xs) = VList (map sem xs)"
| "sem (JDict d) = VDict (map_of (map (map_prod id sem) d))"

section \<open>Keyword arguments: the validation context\<close>

text \<open>
  Modelled from the spec: \<open>QualityLevel\<close> is imported from \<open>mibig.converters.shared.common\<close>,
  which is not among the source files. The source names its member \<open>QUESTIONABLE\<close>; the
  spec names the strict level \<open>FULL\<close>.
\<close>

datatype QualityLevel = QUESTIONABLE | FULL

text \<open>
  \<open>**kwargs\<close> is a dict from keyword to value. The values the code reads are the quality
  level, the enclosing record (any object, type \<open>'r\<close>) and the \<open>validate\<close> flag.
\<close>

datatype 'r kwval = KNone | KBool bool | KQuality QualityLevel | KRecord 'r

type_synonym 'r kwargs = "(string \<times> 'r kwval) list"

definition kw_get :: "'r kwargs \<Rightarrow> string \<Rightarrow> 'r kwval" where
  "kw_get kw k = (case map_of kw k of None \<Rightarrow> KNone | Some v \<Rightarrow> v)"

fun kw_truthy :: "'r kwval \<Rightarrow> bool" where
  "kw_truthy KNone = False"
| "kw_truthy (KBool b) = b"
| "kw_truthy (KQuality q) = True"
| "kw_truthy (KRecord r) = True"

text \<open>
  Every constructor of the source has the signature \<open>__init__(self, <fields>, validate: bool
  = True, **kwargs)\<close>, and every \<open>from_json\<close> calls it as \<open>cls(<fields>, **kwargs)\<close>. Python
  binds \<open>validate\<close> from the keywords when it is there (\<open>kw_validate\<close>), leaves the other
  keywords in the constructor's \<open>kwargs\<close> (\<open>kw_rest\<close>), and raises \<open>TypeError\<close> when a keyword
  repeats a parameter that the call already passes by name (\<open>kw_clash\<close>).
\<close>

definition kw_validate :: "'r kwargs \<Rightarrow> bool" where
  "kw_validate kw = (case map_of kw ''validate'' of None \<Rightarrow> True | Some v \<Rightarrow> kw_truthy v)"

definition kw_rest :: "'r kwargs \<Rightarrow> 'r kwargs" where
  "kw_rest kw = filter (\<lambda>kv. fst kv \<noteq> ''validate'') kw"

definition kw_clash :: "string list \<Rightarrow> 'r kwargs \<Rightarrow> bool" where
  "kw_clash params kw = list_ex (\<lambda>kv. fst kv \<in> set (''self'' # params)) kw"

section \<open>Classes the source imports\<close>

text \<open>
  \<open>Evidence\<close>, \<open>GeneId\<close>, \<open>Citation\<close> (\<open>mibig.converters.shared.common\<close>), \<open>Monomer\<close>
  (\<open>biosynthesis.common\<close>) and the payload classes \<open>CAL\<close>, \<open>NrpsTypeI\<close>, \<open>Other\<close>,
  \<open>PksIterative\<close>, ... (\<open>modules/cal.py\<close>, \<open>nrps.py\<close>, \<open>other.py\<close>, \<open>pks.py\<close>) are not
  among the source files. The code under study only calls methods on their objects, so an
  object of such a class is modelled by what those calls return: a record with one field
  per method or attribute that \<open>base.py\<close> uses. A \<open>validate\<close> returns its list of issues
  and \<open>to_json\<close> its tree (spec 4.1, 4.4, 4.5); the class methods \<open>from_json\<close> that build
  the objects are the fields of \<open>imported\<close>, a parameter of every \<open>from_json\<close> below.
\<close>

text \<open>\<open>NcaEvidence(Evidence)\<close>: the subclass only sets this vocabulary.\<close>

definition NcaEvidence_VALID_METHODS :: "string list" where
  "NcaEvidence_VALID_METHODS =
     [''Sequence-based prediction'', ''Structure-based inference'', ''Activity assay'']"

text \<open>\<open>evidence.validate(**kwargs)\<close>, \<open>evidence.to_json()\<close>\<close>

record 'r NcaEvidence =
  NcaEvidence_validate :: "'r kwargs \<Rightarrow> ValidationErrorInfo list"
  NcaEvidence_to_json :: json

text \<open>\<open>gene.validate(record=...)\<close>, \<open>gene.to_json()\<close>\<close>

record 'r GeneId =
  GeneId_validate :: "'r kwval \<Rightarrow> ValidationErrorInfo list"
  GeneId_to_json :: json

text \<open>
  Modelled from the spec: the class \<open>Citation\<close> is not among the source files. The spec (3)
  says that citations are totally ordered by (source-type, identifier); a citation is a
  value of any type \<open>'c\<close>, linearly ordered wherever the code sorts citations.
\<close>

text \<open>\<open>monomer.validate()\<close>, \<open>monomer.references\<close>, \<open>monomer.to_json()\<close>\<close>

record 'c Monomer =
  Monomer_validate :: "ValidationErrorInfo list"
  Monomer_references :: "'c list"
  Monomer_to_json :: json

text \<open>\<open>domain.references\<close> of the objects that \<open>extra_info.get_domains()\<close> returns\<close>

record 'c Domain =
  Domain_references :: "'c list"

text \<open>\<open>extra_info.validate(**kwargs)\<close>, \<open>extra_info.get_domains()\<close>, \<open>extra_info.to_json()\<close>\<close>

record ('c, 'r) ExtraInfo =
  ExtraInfo_validate :: "'r kwargs \<Rightarrow> ValidationErrorInfo list"
  ExtraInfo_get_domains :: "'c Domain list"
  ExtraInfo_to_json :: "(string \<times> json) list"

record ('c, 'r) imported =
  NcaEvidence_from_json :: "json \<Rightarrow> 'r kwargs \<Rightarrow> error + 'r NcaEvidence"
  GeneId_from_json :: "json \<Rightarrow> 'r kwargs \<Rightarrow> error + 'r GeneId"
  Monomer_from_json :: "json \<Rightarrow> error + 'c Monomer"
  CAL_from_json :: "(string \<times> json) list \<Rightarrow> 'r kwargs \<Rightarrow> error + ('c, 'r) ExtraInfo"
  NrpsTypeI_from_json :: "(string \<times> json) list \<Rightarrow> 'r kwargs \<Rightarrow> error + ('c, 'r) ExtraInfo"
  Other_from_json :: "(string \<times> json) list \<Rightarrow> 'r kwargs \<Rightarrow> error + ('c, 'r) ExtraInfo"
  PksIterative_from_json :: "(string \<times> json) list \<Rightarrow> 'r kwargs \<Rightarrow> error + ('c, 'r) ExtraInfo"
  PksModular_from_json :: "(string \<times> json) list \<Rightarrow> 'r kwargs \<Rightarrow> error + ('c, 'r) ExtraInfo"
  PksTransAt_from_json :: "(string \<times> json) list \<Rightarrow> 'r kwargs \<Rightarrow> error + ('c, 'r) ExtraInfo"
  PksModularStarter_from_json :: "(string \<times> json) list \<Rightarrow> 'r kwargs \<Rightarrow> error + ('c, 'r) ExtraInfo"
  PksTransAtStarter_from_json :: "(string \<times> json) list \<Rightarrow> 'r kwargs \<Rightarrow> error + ('c, 'r) ExtraInfo"

section \<open>NonCanonicalActivity (modules/base.py)\<close>

record 'r NonCanonicalActivity =
  evidence :: "'r NcaEvidence list"
  iterations :: json
  non_elongating :: json
  skipped :: json

definition NonCanonicalActivity_validate ::
  "'r NonCanonicalActivity \<Rightarrow> 'r kwargs \<Rightarrow> ValidationErrorInfo list" where
  "NonCanonicalActivity_validate a kw =
     (let quality = kw_get kw ''quality'' in
        (if quality \<noteq> KQuality QUESTIONABLE then
           (if evidence a = [] then
              [ValidationErrorInfo ''NonCanonicalActivity.evidence''
                 (Text ''At least one evidence must be provided'')]
            else [])
         else [])
        @ concat (map (\<lambda>e. NcaEvidence_validate e kw) (evidence a)))"

definition NonCanonicalActivity_init ::
  "'r NcaEvidence list \<Rightarrow> json \<Rightarrow> json \<Rightarrow> json \<Rightarrow> bool \<Rightarrow> 'r kwargs
     \<Rightarrow> error + 'r NonCanonicalActivity" where
  "NonCanonicalActivity_init ev it ne sk validate kw =
     (let a = \<lparr>evidence = ev, iterations = it, non_elongating = ne, skipped = sk\<rparr> in
        if \<not> validate then Inr a
        else (let errors = NonCanonicalActivity_validate a kw in
                if errors \<noteq> [] then Inl (ValidationError errors) else Inr a))"

definition NonCanonicalActivity_from_json ::
  "('c, 'r) imported \<Rightarrow> json \<Rightarrow> 'r kwargs \<Rightarrow> error + 'r NonCanonicalActivity" where
  "NonCanonicalActivity_from_json I raw kw =
     (case raw of
        JDict d \<Rightarrow>
          and_then (getitem d ''evidence'') (\<lambda>ev_raw.
          and_then (py_iter ev_raw) (\<lambda>items.
          and_then (map_result (\<lambda>x. NcaEvidence_from_json I x kw) items) (\<lambda>ev.
            if kw_clash [''evidence'', ''iterations'', ''non_elongating'', ''skipped''] kw
            then Inl TypeError
            else NonCanonicalActivity_init ev (dict_get d ''iterations'')
                   (dict_get d ''nonElongating'') (dict_get d ''skipped'')
                   (kw_validate kw) (kw_rest kw))))
      | _ \<Rightarrow> Inl TypeError)"

definition NonCanonicalActivity_to_json :: "'r NonCanonicalActivity \<Rightarrow> (string \<times> json) list" where
  "NonCanonicalActivity_to_json a =
     [(''evidence'', JList (map NcaEvidence_to_json (evidence a)))]
     @ (if iterations a \<noteq> JNull then [(''iterations'', iterations a)] else [])
     @ (if non_elongating a \<noteq> JNull then [(''nonElongating'', non_elongating a)] else [])
     @ (if skipped a \<noteq> JNull then [(''skipped'', skipped a)] else [])"

section \<open>Module (modules/base.py)\<close>

datatype ModuleType =
    CAL
  | NRPS_TYPE1
  | NRPS_TYPE6
  | OTHER
  | PKS_ITERATIVE
  | PKS_MODULAR
  | PKS_TRANS_AT
  | PKS_MODULAR_STARTER
  | PKS_TRANS_AT_STARTER

fun ModuleType_value :: "ModuleType \<Rightarrow> string" where
  "ModuleType_value CAL = ''cal''"
| "ModuleType_value NRPS_TYPE1 = ''nrps-type1''"
| "ModuleType_value NRPS_TYPE6 = ''nrps-type6''"
| "ModuleType_value OTHER = ''other''"
| "ModuleType_value PKS_ITERATIVE = ''pks-iterative''"
| "ModuleType_value PKS_MODULAR = ''pks-modular''"
| "ModuleType_value PKS_TRANS_AT = ''pks-trans-at''"
| "ModuleType_value PKS_MODULAR_STARTER = ''pks-modular-starter''"
| "ModuleType_value PKS_TRANS_AT_STARTER = ''pks-trans-at-starter''"

definition ModuleType_members :: "ModuleType list" where
  "ModuleType_members =
     [CAL, NRPS_TYPE1, NRPS_TYPE6, OTHER, PKS_ITERATIVE, PKS_MODULAR, PKS_TRANS_AT,
      PKS_MODULAR_STARTER, PKS_TRANS_AT_STARTER]"

text \<open>
  \<open>ModuleType(v)\<close>, the lookup of a \<open>StrEnum\<close> member by value: the member whose value
  equals \<open>v\<close>, or \<open>ValueError("<v> is not a valid ModuleType")\<close>.
\<close>

definition ModuleType_of :: "json \<Rightarrow> error + ModuleType" where
  "ModuleType_of v =
     (case find (\<lambda>t. JStr (ModuleType_value t) = v) ModuleType_members of
        None \<Rightarrow> Inl (ValueError v)
      | Some t \<Rightarrow> Inr t)"

text \<open>The table \<open>MAPPING\<close>: the payload class of a module type, by its \<open>from_json\<close>.\<close>

fun MAPPING ::
  "('c, 'r) imported \<Rightarrow> ModuleType
     \<Rightarrow> (string \<times> json) list \<Rightarrow> 'r kwargs \<Rightarrow> error + ('c, 'r) ExtraInfo" where
  "MAPPING I CAL = CAL_from_json I"
| "MAPPING I NRPS_TYPE1 = NrpsTypeI_from_json I"
| "MAPPING I NRPS_TYPE6 = NrpsTypeI_from_json I"
| "MAPPING I OTHER = Other_from_json I"
| "MAPPING I PKS_ITERATIVE = PksIterative_from_json I"
| "MAPPING I PKS_MODULAR = PksModular_from_json I"
| "MAPPING I PKS_TRANS_AT = PksTransAt_from_json I"
| "MAPPING I PKS_MODULAR_STARTER = PksModularStarter_from_json I"
| "MAPPING I PKS_TRANS_AT_STARTER = PksTransAtStarter_from_json I"

record ('c, 'r) Module =
  module_type :: ModuleType
  name :: json
  genes :: "'r GeneId list"
  active :: json
  extra_info :: "('c, 'r) ExtraInfo"
  integrated_monomers :: "'c Monomer list"
  non_canonical_activity :: "'r NonCanonicalActivity option"
  comment :: json

definition Module_validate :: "('c, 'r) Module \<Rightarrow> 'r kwargs \<Rightarrow> ValidationErrorInfo list" where
  "Module_validate m kw =
     ExtraInfo_validate (extra_info m) kw
     @ concat (map Monomer_validate (integrated_monomers m))
     @ concat (map (\<lambda>gene. GeneId_validate gene (kw_get kw ''record'')) (genes m))
     @ (case non_canonical_activity m of
          None \<Rightarrow> []
        | Some a \<Rightarrow> NonCanonicalActivity_validate a kw)"

definition Module_init ::
  "ModuleType \<Rightarrow> json \<Rightarrow> 'r GeneId list \<Rightarrow> json \<Rightarrow> ('c, 'r) ExtraInfo \<Rightarrow> 'c Monomer list
     \<Rightarrow> 'r NonCanonicalActivity option \<Rightarrow> json \<Rightarrow> bool \<Rightarrow> 'r kwargs
     \<Rightarrow> error + ('c, 'r) Module" where
  "Module_init mt nm gs act ei ims nca cm validate kw =
     (let m = \<lparr>module_type = mt, name = nm, genes = gs, active = act, extra_info = ei,
                integrated_monomers = ims, non_canonical_activity = nca, comment = cm\<rparr> in
        if \<not> validate then Inr m
        else (let errors = Module_validate m kw in
                if errors \<noteq> [] then Inl (ValidationError errors) else Inr m))"

text \<open>
  The property \<open>references\<close>: a Python set collects the citations, \<open>sorted\<close> orders them.
  Sorting the elements of a set by a linear order gives one list, whatever order the set
  hands them out in.
\<close>

definition Module_references :: "('c::linorder, 'r) Module \<Rightarrow> 'c list" where
  "Module_references m =
     (let references = {};
          references = fold (\<lambda>monomer refs. refs \<union> set (Monomer_references monomer))
                         (integrated_monomers m) references;
          references = fold (\<lambda>domain refs. refs \<union> set (Domain_references domain))
                         (ExtraInfo_get_domains (extra_info m)) references
      in sorted_list_of_set references)"

definition Module_from_json ::
  "('c, 'r) imported \<Rightarrow> (string \<times> json) list \<Rightarrow> 'r kwargs \<Rightarrow> error + ('c, 'r) Module" where
  "Module_from_json I raw kw =
     and_then (getitem raw ''type'') (\<lambda>tag.
     and_then (ModuleType_of tag) (\<lambda>mt.
     and_then (MAPPING I mt raw kw) (\<lambda>ei.
     and_then (if truthy (dict_get raw ''non_canonical_activity'')
               then and_then (getitem raw ''non_canonical_activity'') (\<lambda>nca_raw.
                    and_then (NonCanonicalActivity_from_json I nca_raw kw) (\<lambda>a. Inr (Some a)))
               else Inr None) (\<lambda>nc_activity.
     and_then (getitem raw ''name'') (\<lambda>nm.
     and_then (getitem raw ''genes'') (\<lambda>genes_raw.
     and_then (py_iter genes_raw) (\<lambda>gene_items.
     and_then (map_result (\<lambda>gene. GeneId_from_json I gene kw) gene_items) (\<lambda>gs.
     and_then (getitem raw ''active'') (\<lambda>act.
     and_then (py_iter (dict_get_default raw ''integrated_monomers'' (JList []))) (\<lambda>monomer_items.
     and_then (map_result (Monomer_from_json I) monomer_items) (\<lambda>ims.
       if kw_clash [''module_type'', ''name'', ''genes'', ''active'', ''extra_info'', ''comment'',
                    ''integrated_monomers'', ''non_canonical_activity''] kw
       then Inl TypeError
       else Module_init mt nm gs act ei ims nc_activity (dict_get raw ''comment'')
              (kw_validate kw) (kw_rest kw))))))))))))"

definition Module_to_json :: "('c, 'r) Module \<Rightarrow> (string \<times> json) list" where
  "Module_to_json m =
     (let ret = dict_merge
                  [(''type'', JStr (ModuleType_value (module_type m))),
                   (''name'', name m),
                   (''genes'', JList (map GeneId_to_json (genes m))),
                   (''active'', active m)]
                  (ExtraInfo_to_json (extra_info m));
          ret = (if integrated_monomers m \<noteq> []
                 then setitem ret ''integrated_monomers''
                        (JList (map Monomer_to_json (integrated_monomers m)))
                 else ret);
          ret = (case non_canonical_activity m of
                   Some a \<Rightarrow> setitem ret ''non_canonical_activity''
                               (JDict (NonCanonicalActivity_to_json a))
                 | None \<Rightarrow> ret);
          ret = (if truthy (comment m) then setitem ret ''comment'' (comment m) else ret)
      in ret)"

section \<open>Gene functions (gene/function.py)\<close>

text \<open>
  \<open>Citation.from_json\<close> and \<open>validate_citation_list\<close> are imported from
  \<open>mibig.converters.shared.common\<close>; they are the parameters \<open>Citation_from_json\<close> and
  \<open>validate_citation_list\<close> of the functions below.
\<close>

record 'c FunctionEvidence =
  fe_method :: json
  fe_references :: "'c list"

definition FunctionEvidence_VALID_METHODS :: "string list" where
  "FunctionEvidence_VALID_METHODS =
     [''Other in vivo study'', ''Heterologous expression'', ''Knock-out'', ''Activity assay'']"

definition FunctionEvidence_validate ::
  "('c list \<Rightarrow> ValidationErrorInfo list) \<Rightarrow> 'c FunctionEvidence \<Rightarrow> ValidationErrorInfo list" where
  "FunctionEvidence_validate validate_citation_list e =
     (if fe_method e \<notin> set (map JStr FunctionEvidence_VALID_METHODS)
      then [ValidationErrorInfo ''method'' (FString ''Invalid method: '' (fe_method e))]
      else [])
     @ validate_citation_list (fe_references e)"

text \<open>
  \<open>FunctionEvidence.validate(self)\<close> takes no keywords: \<open>evidence.validate(**kwargs)\<close>
  raises \<open>TypeError\<close> unless \<open>kwargs\<close> is empty.
\<close>

definition FunctionEvidence_validate_kwargs ::
  "('c list \<Rightarrow> ValidationErrorInfo list) \<Rightarrow> 'c FunctionEvidence \<Rightarrow> 'r kwargs
     \<Rightarrow> error + ValidationErrorInfo list" where
  "FunctionEvidence_validate_kwargs validate_citation_list e kw =
     (if kw \<noteq> [] then Inl TypeError
      else Inr (FunctionEvidence_validate validate_citation_list e))"

definition FunctionEvidence_init ::
  "('c list \<Rightarrow> ValidationErrorInfo list) \<Rightarrow> json \<Rightarrow> 'c list \<Rightarrow> bool
     \<Rightarrow> error + 'c FunctionEvidence" where
  "FunctionEvidence_init validate_citation_list method refs validate =
     (let e = \<lparr>fe_method = method, fe_references = refs\<rparr> in
        if \<not> validate then Inr e
        else (let errors = FunctionEvidence_validate validate_citation_list e in
                if errors \<noteq> [] then Inl (ValidationError errors) else Inr e))"

text \<open>
  The constructor takes \<open>validate\<close> and no other keyword, so \<open>cls(..., **kwargs)\<close> raises
  \<open>TypeError\<close> for any other keyword.
\<close>

definition FunctionEvidence_from_json ::
  "('c list \<Rightarrow> ValidationErrorInfo list) \<Rightarrow> (json \<Rightarrow> error + 'c) \<Rightarrow> json \<Rightarrow> 'r kwargs
     \<Rightarrow> error + 'c FunctionEvidence" where
  "FunctionEvidence_from_json validate_citation_list Citation_from_json raw kw =
     (case raw of
        JDict d \<Rightarrow>
          and_then (getitem d ''method'') (\<lambda>method.
          and_then (getitem d ''references'') (\<lambda>refs_raw.
          and_then (py_iter refs_raw) (\<lambda>ref_items.
          and_then (map_result Citation_from_json ref_items) (\<lambda>refs.
            if kw_clash [''method'', ''references''] kw \<or> kw_rest kw \<noteq> []
            then Inl TypeError
            else FunctionEvidence_init validate_citation_list method refs (kw_validate kw)))))
      | _ \<Rightarrow> Inl TypeError)"

record 'c MutationPhenotype =
  phenotype :: json
  mp_details :: json
  mp_references :: "'c list"

definition MutationPhenotype_validate ::
  "('c list \<Rightarrow> ValidationErrorInfo list) \<Rightarrow> 'c MutationPhenotype \<Rightarrow> 'r kwargs
     \<Rightarrow> ValidationErrorInfo list" where
  "MutationPhenotype_validate validate_citation_list p kw =
     (if \<not> truthy (phenotype p)
      then [ValidationErrorInfo ''MutationPhenotype.phenotype'' (Text ''Phenotype must be provided'')]
      else [])
     @ validate_citation_list (mp_references p)"

definition MutationPhenotype_init ::
  "('c list \<Rightarrow> ValidationErrorInfo list) \<Rightarrow> json \<Rightarrow> 'c list \<Rightarrow> json \<Rightarrow> bool \<Rightarrow> 'r kwargs
     \<Rightarrow> error + 'c MutationPhenotype" where
  "MutationPhenotype_init validate_citation_list ph refs det validate kw =
     (let p = \<lparr>phenotype = ph, mp_details = det, mp_references = refs\<rparr> in
        if \<not> validate then Inr p
        else (let errors = MutationPhenotype_validate validate_citation_list p kw in
                if errors \<noteq> [] then Inl (ValidationError errors) else Inr p))"

definition MutationPhenotype_from_json ::
  "('c list \<Rightarrow> ValidationErrorInfo list) \<Rightarrow> (json \<Rightarrow> error + 'c) \<Rightarrow> json \<Rightarrow> 'r kwargs
     \<Rightarrow> error + 'c MutationPhenotype" where
  "MutationPhenotype_from_json validate_citation_list Citation_from_json raw kw =
     (case raw of
        JDict d \<Rightarrow>
          and_then (getitem d ''phenotype'') (\<lambda>ph.
          and_then (getitem d ''references'') (\<lambda>refs_raw.
          and_then (py_iter refs_raw) (\<lambda>ref_items.
          and_then (map_result Citation_from_json ref_items) (\<lambda>refs.
            if kw_clash [''phenotype'', ''details'', ''references''] kw
            then Inl TypeError
            else MutationPhenotype_init validate_citation_list ph refs (dict_get d ''details'')
                   (kw_validate kw) (kw_rest kw)))))
      | _ \<Rightarrow> Inl TypeError)"

record 'c GeneFunction =
  gf_function :: json
  gf_evidence :: "'c FunctionEvidence list"
  gf_details :: json
  gf_mutation_phenotype :: "'c MutationPhenotype option"

definition GeneFunction_VALID_FUNCTIONS :: "string list" where
  "GeneFunction_VALID_FUNCTIONS =
     [''Activation / processing'', ''Maturation'', ''Precursor'', ''Precursor biosynthesis'',
      ''Regulation'', ''Resistance/immunity'', ''Scaffold biosynthesis'', ''Tailoring'',
      ''Transport'', ''Other'']"

text \<open>The two checks of \<open>GeneFunction.validate\<close> on the object's own fields.\<close>

definition GeneFunction_function_issues :: "'c GeneFunction \<Rightarrow> ValidationErrorInfo list" where
  "GeneFunction_function_issues g =
     (if gf_function g \<notin> set (map JStr GeneFunction_VALID_FUNCTIONS)
      then [ValidationErrorInfo ''GeneFunction.function''
              (FString ''Invalid function: '' (gf_function g))]
      else [])"

definition GeneFunction_details_issues :: "'c GeneFunction \<Rightarrow> ValidationErrorInfo list" where
  "GeneFunction_details_issues g =
     (if gf_function g = JStr ''Other'' \<and> \<not> truthy (gf_details g)
      then [ValidationErrorInfo ''GeneFunction.details''
              (Text ''Details must be provided for 'Other' function'')]
      else [])"

definition GeneFunction_validate ::
  "('c list \<Rightarrow> ValidationErrorInfo list) \<Rightarrow> 'c GeneFunction \<Rightarrow> 'r kwargs
     \<Rightarrow> error + ValidationErrorInfo list" where
  "GeneFunction_validate validate_citation_list g kw =
     (let errors = GeneFunction_function_issues g @ GeneFunction_details_issues g;
          errors = errors @ (case gf_mutation_phenotype g of
                               None \<Rightarrow> []
                             | Some p \<Rightarrow> MutationPhenotype_validate validate_citation_list p kw)
      in and_then (map_result (\<lambda>e. FunctionEvidence_validate_kwargs validate_citation_list e kw)
                     (gf_evidence g))
           (\<lambda>evidence_errors. Inr (errors @ concat evidence_errors)))"

definition GeneFunction_init ::
  "('c list \<Rightarrow> ValidationErrorInfo list) \<Rightarrow> json \<Rightarrow> 'c FunctionEvidence list \<Rightarrow> json
     \<Rightarrow> 'c MutationPhenotype option \<Rightarrow> bool \<Rightarrow> 'r kwargs \<Rightarrow> error + 'c GeneFunction" where
  "GeneFunction_init validate_citation_list fn ev det mp validate kw =
     (let g = \<lparr>gf_function = fn, gf_evidence = ev, gf_details = det,
                gf_mutation_phenotype = mp\<rparr> in
        if \<not> validate then Inr g
        else and_then (GeneFunction_validate validate_citation_list g kw) (\<lambda>errors.
               if errors \<noteq> [] then Inl (ValidationError errors) else Inr g))"

text \<open>\<open>v[k]\<close> on any value: only a dict can be indexed by a string.\<close>

definition subscript :: "json \<Rightarrow> string \<Rightarrow> error + json" where
  "subscript v k = (case v of JDict d \<Rightarrow> getitem d k | _ \<Rightarrow> Inl TypeError)"

text \<open>
  \<open>GeneFunction.from_json\<close> passes no keyword to \<open>FunctionEvidence.from_json\<close> and
  \<open>MutationPhenotype.from_json\<close>: both run with an empty \<open>kwargs\<close>. \<open>raw["function"]\<close> is
  read twice; the second read, \<open>.get("details")\<close>, is reached only when the first found a
  dict.
\<close>

definition GeneFunction_from_json ::
  "('c list \<Rightarrow> ValidationErrorInfo list) \<Rightarrow> (json \<Rightarrow> error + 'c) \<Rightarrow> (string \<times> json) list
     \<Rightarrow> 'r kwargs \<Rightarrow> error + 'c GeneFunction" where
  "GeneFunction_from_json validate_citation_list Citation_from_json raw kw =
     and_then (getitem raw ''function'') (\<lambda>fn_raw.
     and_then (subscript fn_raw ''name'') (\<lambda>fn.
     and_then (getitem raw ''evidence'') (\<lambda>ev_raw.
     and_then (py_iter ev_raw) (\<lambda>ev_items.
     and_then (map_result
                 (\<lambda>x. FunctionEvidence_from_json validate_citation_list Citation_from_json x
                         ([] :: 'r kwargs)) ev_items) (\<lambda>ev.
     and_then (case fn_raw of JDict d \<Rightarrow> Inr (dict_get d ''details'') | _ \<Rightarrow> Inl TypeError) (\<lambda>det.
     and_then (case map_of raw ''mutation_phenotype'' of
                 Some mp_raw \<Rightarrow>
                   and_then (MutationPhenotype_from_json validate_citation_list
                               Citation_from_json mp_raw ([] :: 'r kwargs))
                     (\<lambda>p. Inr (Some p))
               | None \<Rightarrow> Inr None) (\<lambda>mp.
       if kw_clash [''function'', ''evidence'', ''details'', ''mutation_phenotype''] kw
       then Inl TypeError
       else GeneFunction_init validate_citation_list fn ev det mp
              (kw_validate kw) (kw_rest kw))))))))"

text \<open>\<open>to_json\<close> of the three classes; \<open>Citation.to_json\<close> is the parameter \<open>Citation_to_json\<close>.\<close>

definition FunctionEvidence_to_json ::
  "('c \<Rightarrow> json) \<Rightarrow> 'c FunctionEvidence \<Rightarrow> (string \<times> json) list" where
  "FunctionEvidence_to_json Citation_to_json e =
     [(''method'', fe_method e),
      (''references'', JList (map Citation_to_json (fe_references e)))]"

definition MutationPhenotype_to_json ::
  "('c \<Rightarrow> json) \<Rightarrow> 'c MutationPhenotype \<Rightarrow> (string \<times> json) list" where
  "MutationPhenotype_to_json Citation_to_json p =
     (let ret = [(''phenotype'', phenotype p),
                 (''references'', JList (map Citation_to_json (mp_references p)))];
          ret = (if truthy (mp_details p) then setitem ret ''details'' (mp_details p) else ret)
      in ret)"

definition GeneFunction_to_json ::
  "('c \<Rightarrow> json) \<Rightarrow> 'c GeneFunction \<Rightarrow> (string \<times> json) list" where
  "GeneFunction_to_json Citation_to_json g =
     (let function = [(''name'', gf_function g)];
          function = (if truthy (gf_details g) then setitem function ''details'' (gf_details g)
                      else function);
          ret = [(''function'', JDict function),
                 (''evidence'',
                  JList (map (\<lambda>e. JDict (FunctionEvidence_to_json Citation_to_json e))
                           (gf_evidence g)))];
          ret = (case gf_mutation_phenotype g of
                   Some p \<Rightarrow> setitem ret ''mutation_phenotype''
                               (JDict (MutationPhenotype_to_json Citation_to_json p))
                 | None \<Rightarrow> ret)
      in ret)"

section \<open>aSModule (utils_modules.py)\<close>

text \<open>
  The arguments are Python values of any type, here JSON-like trees. The module
  \<open>utils_modules\<close> binds only the names \<open>MibigError\<close> and \<open>aSModule\<close>, and the builtins have
  no \<open>location\<close>: a name read in \<open>__init__\<close> that is none of its parameters is not defined,
  and reading it raises \<open>NameError\<close>.
\<close>

record aSModule =
  as_domains :: json
  as_locus_tag :: json
  as_starterModule :: json
  as_final_module :: json
  as_location :: json

definition load_name :: "(string \<times> json) list \<Rightarrow> string \<Rightarrow> error + json" where
  "load_name params n = (case map_of params n of None \<Rightarrow> Inl (NameError n) | Some v \<Rightarrow> Inr v)"

fun py_len :: "json \<Rightarrow> error + nat" where
  "py_len (JStr s) = Inr (length s)"
| "py_len (JList xs) = Inr (length xs)"
| "py_len (JDict d) = Inr (length d)"
| "py_len JNull = Inl TypeError"
| "py_len (JBool b) = Inl TypeError"
| "py_len (JInt i) = Inl TypeError"

definition aSModule_init :: "json \<Rightarrow> json \<Rightarrow> json \<Rightarrow> json \<Rightarrow> json \<Rightarrow> error + aSModule" where
  "aSModule_init domains locus_tag starterModule final_module locations =
     (let params = [(''domains'', domains), (''locus_tag'', locus_tag),
                    (''starterModule'', starterModule), (''final_module'', final_module),
                    (''locations'', locations)] in
        if \<not> list_all truthy [domains, locus_tag]
        then Inl (MibigError ''Domain list and locus tag are required'')
        else
          and_then (load_name params ''location'') (\<lambda>location.
          and_then (if location = JNull then Inr True
                    else and_then (load_name params ''location'') (\<lambda>location.
                         and_then (py_len location) (\<lambda>n. Inr (n = 2)))) (\<lambda>ok.
            if \<not> ok then Inl (MibigError ''Location should be a list of two integers'')
            else
              and_then (load_name params ''location'') (\<lambda>location.
                Inr \<lparr>as_domains = domains, as_locus_tag = locus_tag,
                     as_starterModule = starterModule, as_final_module = final_module,
                     as_location = location\<rparr>))))"

section \<open>Notions the properties are stated with\<close>

text \<open>The citations attached to a module: those of its monomers and of its payload's domains.\<close>

definition attached_citations :: "('c, 'r) Module \<Rightarrow> 'c set" where
  "attached_citations m =
     (\<Union>monomer \<in> set (integrated_monomers m). set (Monomer_references monomer))
     \<union> (\<Union>domain \<in> set (ExtraInfo_get_domains (extra_info m)). set (Domain_references domain))"

text \<open>The keys that \<open>Module.to_json\<close> writes itself; every other key is the payload's.\<close>

definition Module_keys :: "string list" where
  "Module_keys = [''type'', ''name'', ''genes'', ''active'', ''integrated_monomers'',
                  ''non_canonical_activity'', ''comment'']"

text \<open>
  A well-formed raw module has its fields in the right shape: \<open>genes\<close> is a list;
  \<open>integrated_monomers\<close>, when there, is a list; \<open>non_canonical_activity\<close>, when there and
  not empty, is a dict with a list of evidence and no field besides \<open>evidence\<close>,
  \<open>iterations\<close>, \<open>nonElongating\<close> and \<open>skipped\<close>. (Without \<open>type\<close>, \<open>name\<close> or \<open>active\<close>
  \<open>from_json\<close> raises \<open>KeyError\<close>.) Optional fields may be absent, empty or null.
\<close>

fun is_list :: "json \<Rightarrow> bool" where
  "is_list (JList xs) = True"
| "is_list v = False"

definition well_formed_activity :: "json \<Rightarrow> bool" where
  "well_formed_activity v =
     (case v of
        JDict d \<Rightarrow>
          list_all (\<lambda>kv. fst kv \<in> set [''evidence'', ''iterations'', ''nonElongating'', ''skipped'']) d
          \<and> (case map_of d ''evidence'' of None \<Rightarrow> False | Some ev \<Rightarrow> is_list ev)
      | _ \<Rightarrow> False)"

definition well_formed :: "(string \<times> json) list \<Rightarrow> bool" where
  "well_formed raw =
     ((case map_of raw ''genes'' of None \<Rightarrow> False | Some v \<Rightarrow> is_list v)
      \<and> (case map_of raw ''integrated_monomers'' of None \<Rightarrow> True | Some v \<Rightarrow> is_list v)
      \<and> (case map_of raw ''non_canonical_activity'' of
            None \<Rightarrow> True
          | Some v \<Rightarrow> if truthy v then well_formed_activity v else True))"

text \<open>
  The omission rules, read on the raw module: an optional field is empty when the comment
  or the activity is absent, null or otherwise falsy, or the list of monomers is empty.
  \<open>omit_empty\<close> is the raw module without its empty optional fields and, in its activity,
  without the fields that are null. A raw module that has nothing to omit is its own
  \<open>omit_empty\<close>.
\<close>

definition empty_optional :: "(string \<times> json) list \<Rightarrow> string \<Rightarrow> bool" where
  "empty_optional raw k =
     ((k = ''comment'' \<and> \<not> truthy (dict_get raw k))
      \<or> (k = ''integrated_monomers'' \<and> dict_get raw k = JList [])
      \<or> (k = ''non_canonical_activity'' \<and> \<not> truthy (dict_get raw k)))"

definition strip_null :: "(string \<times> json) list \<Rightarrow> (string \<times> json) list" where
  "strip_null d = filter (\<lambda>kv. map_of d (fst kv) \<noteq> Some JNull) d"

definition strip_activity :: "json \<Rightarrow> json" where
  "strip_activity v = (case v of JDict d \<Rightarrow> JDict (strip_null d) | _ \<Rightarrow> v)"

definition omit_empty :: "(string \<times> json) list \<Rightarrow> (string \<times> json) list" where
  "omit_empty raw =
     map (\<lambda>kv. if fst kv = ''non_canonical_activity'' then (fst kv, strip_activity (snd kv))
                else kv)
       (filter (\<lambda>kv. \<not> empty_optional raw (fst kv)) raw)"

text \<open>
  What the round trip of a raw module needs from the imported classes, for the keyword
  arguments of the call: each of them gives back, from the object it builds from a part of
  this raw module, the tree of that part; the payload class that \<open>MAPPING\<close> selects for the
  type of this raw module reads the whole of it and gives back, as a dict, exactly the
  fields that are not the envelope's.
\<close>

fun list_items :: "json \<Rightarrow> json list" where
  "list_items (JList xs) = xs"
| "list_items v = []"

definition activity_evidence_items :: "json \<Rightarrow> json list" where
  "activity_evidence_items v =
     (case v of JDict d \<Rightarrow> list_items (dict_get d ''evidence'') | _ \<Rightarrow> [])"

definition parts_round_trip ::
  "('c, 'r) imported \<Rightarrow> (string \<times> json) list \<Rightarrow> 'r kwargs \<Rightarrow> bool" where
  "parts_round_trip I raw kw =
     ((\<forall>mt p. ModuleType_of (dict_get raw ''type'') = Inr mt \<and> MAPPING I mt raw kw = Inr p \<longrightarrow>
          distinct (map fst (ExtraInfo_to_json p))
          \<and> (\<forall>k. map_option sem (map_of (ExtraInfo_to_json p) k)
                   = (if k \<in> set Module_keys then None else map_option sem (map_of raw k))))
      \<and> (\<forall>j g. j \<in> set (list_items (dict_get raw ''genes''))
                 \<and> GeneId_from_json I j kw = Inr g \<longrightarrow>
            sem (GeneId_to_json g) = sem j)
      \<and> (\<forall>j mo. j \<in> set (list_items (dict_get raw ''integrated_monomers''))
                  \<and> Monomer_from_json I j = Inr mo \<longrightarrow>
            sem (Monomer_to_json mo) = sem j)
      \<and> (\<forall>j e. j \<in> set (activity_evidence_items (dict_get raw ''non_canonical_activity''))
                 \<and> NcaEvidence_from_json I j kw = Inr e \<longrightarrow>
            sem (NcaEvidence_to_json e) = sem j))"

text \<open>
  The order that the spec (4.5) describes: the issues of the object's own fields, then those
  of the children in the order in which the class declares them. \<open>Module\<close> declares \<open>genes\<close>,
  \<open>extra_info\<close>, \<open>integrated_monomers\<close>, \<open>non_canonical_activity\<close> and checks no field of its
  own; \<open>GeneFunction\<close> declares \<open>function\<close>, \<open>evidence\<close>, \<open>details\<close>, \<open>mutation_phenotype\<close>.
\<close>

definition Module_validate_declaration_order ::
  "('c, 'r) Module \<Rightarrow> 'r kwargs \<Rightarrow> ValidationErrorInfo list" where
  "Module_validate_declaration_order m kw =
     concat (map (\<lambda>gene. GeneId_validate gene (kw_get kw ''record'')) (genes m))
     @ ExtraInfo_validate (extra_info m) kw
     @ concat (map Monomer_validate (integrated_monomers m))
     @ (case non_canonical_activity m of
          None \<Rightarrow> []
        | Some a \<Rightarrow> NonCanonicalActivity_validate a kw)"

definition GeneFunction_validate_declaration_order ::
  "('c list \<Rightarrow> ValidationErrorInfo list) \<Rightarrow> 'c GeneFunction \<Rightarrow> ValidationErrorInfo list" where
  "GeneFunction_validate_declaration_order validate_citation_list g =
     GeneFunction_function_issues g @ GeneFunction_details_issues g
     @ concat (map (FunctionEvidence_validate validate_citation_list) (gf_evidence g))
     @ (case gf_mutation_phenotype g of
          None \<Rightarrow> []
        | Some p \<Rightarrow> MutationPhenotype_validate validate_citation_list p ([] :: unit kwargs))"

section \<open>Example objects\<close>

text \<open>
  Objects of the imported classes for the examples that follow the theorems. The record of
  the validation context is the list of the gene names it knows; a citation is a number.
\<close>

definition example_evidence :: "ValidationErrorInfo list \<Rightarrow> json \<Rightarrow> 'r NcaEvidence" where
  "example_evidence issues j = \<lparr>NcaEvidence_validate = (\<lambda>kw. issues), NcaEvidence_to_json = j\<rparr>"

definition example_gene :: "string \<Rightarrow> string list GeneId" where
  "example_gene n =
     \<lparr>GeneId_validate =
        (\<lambda>record. case record of
           KRecord known \<Rightarrow>
             if n \<in> set known then []
             else [ValidationErrorInfo ''GeneId'' (FString ''Unknown gene: '' (JStr n))]
         | _ \<Rightarrow> []),
      GeneId_to_json = JStr n\<rparr>"

definition example_monomer :: "string \<Rightarrow> 'c list \<Rightarrow> 'c Monomer" where
  "example_monomer n refs =
     \<lparr>Monomer_validate =
        (if n = [] then [ValidationErrorInfo ''Monomer.name'' (Text ''Name must be provided'')]
         else []),
      Monomer_references = refs,
      Monomer_to_json = JStr n\<rparr>"

definition example_payload ::
  "(string \<times> json) list \<Rightarrow> 'c Domain list \<Rightarrow> ('c, 'r) ExtraInfo" where
  "example_payload flds domains =
     \<lparr>ExtraInfo_validate =
        (\<lambda>kw. if flds = []
              then [ValidationErrorInfo ''CAL.subtype'' (Text ''Subtype must be provided'')]
              else []),
      ExtraInfo_get_domains = domains,
      ExtraInfo_to_json = flds\<rparr>"

definition example_module :: "(nat, string list) Module" where
  "example_module =
     \<lparr>module_type = CAL, name = JStr ''m1'',
      genes = [example_gene ''geneA'', example_gene ''geneB''],
      active = JBool True,
      extra_info = example_payload [] [\<lparr>Domain_references = [7, 3]\<rparr>],
      integrated_monomers = [example_monomer ''ala'' [5, 3], example_monomer [] [1]],
      non_canonical_activity = None, comment = JNull\<rparr>"

text \<open>The same citations as \<open>example_module\<close>, attached to other sub-objects in another order.\<close>

definition example_module_reordered :: "(nat, string list) Module" where
  "example_module_reordered =
     \<lparr>module_type = PKS_MODULAR, name = JStr ''m2'', genes = [],
      active = JBool False,
      extra_info = example_payload [(''subtype'', JStr ''x'')]
                     [\<lparr>Domain_references = [1]\<rparr>, \<lparr>Domain_references = [5, 7, 5]\<rparr>],
      integrated_monomers = [example_monomer ''gly'' [3]],
      non_canonical_activity = None, comment = JNull\<rparr>"

definition example_activity :: "string list NonCanonicalActivity" where
  "example_activity =
     \<lparr>evidence =
        [example_evidence [ValidationErrorInfo ''Evidence.method'' (Text ''Invalid method'')] JNull,
         example_evidence [] JNull,
         example_evidence [ValidationErrorInfo ''Evidence.references'' (Text ''Invalid citation'')] JNull],
      iterations = JInt 2, non_elongating = JNull, skipped = JBool True\<rparr>"

definition example_imported :: "(nat, string list) imported" where
  "example_imported =
     (let payload = (\<lambda>raw kw. Inr (example_payload
                                     (filter (\<lambda>kv. fst kv \<notin> set Module_keys) raw) []))
      in \<lparr>NcaEvidence_from_json = (\<lambda>j kw. Inr (example_evidence [] j)),
          GeneId_from_json =
            (\<lambda>j kw. case j of JStr n \<Rightarrow> Inr (example_gene n) | _ \<Rightarrow> Inl TypeError),
          Monomer_from_json =
            (\<lambda>j. case j of JStr n \<Rightarrow> Inr (example_monomer n []) | _ \<Rightarrow> Inl TypeError),
          CAL_from_json = payload, NrpsTypeI_from_json = payload, Other_from_json = payload,
          PksIterative_from_json = payload, PksModular_from_json = payload,
          PksTransAt_from_json = payload, PksModularStarter_from_json = payload,
          PksTransAtStarter_from_json = payload\<rparr>)"

definition example_raw :: "(string \<times> json) list" where
  "example_raw =
     [(''name'', JStr ''m1''),
      (''comment'', JStr ''loading module''),
      (''non_canonical_activity'',
       JDict [(''skipped'', JBool False),
              (''evidence'', JList [JDict [(''method'', JStr ''Activity assay'')]])]),
      (''subtype'', JStr ''x''),
      (''type'', JStr ''nrps-type6''),
      (''active'', JBool True),
      (''integrated_monomers'', JList [JStr ''ala'', JStr ''gly'']),
      (''genes'', JList [JStr ''geneA'', JStr ''geneB''])]"

text \<open>A raw module whose activity has a field that is null.\<close>

definition example_raw_null :: "(string \<times> json) list" where
  "example_raw_null =
     [(''type'', JStr ''other''),
      (''name'', JStr ''m3''),
      (''genes'', JList [JStr ''geneC'']),
      (''active'', JBool True),
      (''subtype'', JStr ''y''),
      (''non_canonical_activity'',
       JDict [(''iterations'', JNull),
              (''evidence'', JList [JDict [(''method'', JStr ''Activity assay'')]]),
              (''skipped'', JBool True)])]"

text \<open>A raw module whose optional fields are there and empty.\<close>

definition example_raw_empty :: "(string \<times> json) list" where
  "example_raw_empty =
     [(''type'', JStr ''cal''),
      (''name'', JStr ''m2''),
      (''genes'', JList []),
      (''active'', JBool False),
      (''subtype'', JStr ''x''),
      (''integrated_monomers'', JList []),
      (''non_canonical_activity'', JDict []),
      (''comment'', JStr [])]"

definition example_gene_function :: "nat GeneFunction" where
  "example_gene_function =
     \<lparr>gf_function = JStr ''Regulator'',
      gf_evidence = [\<lparr>fe_method = JStr ''bogus'', fe_references = []\<rparr>],
      gf_details = JNull,
      gf_mutation_phenotype = Some \<lparr>phenotype = JStr [], mp_details = JNull, mp_references = []\<rparr>\<rparr>"

definition example_raw_gene_function :: "(string \<times> json) list" where
  "example_raw_gene_function =
     [(''function'', JDict [(''name'', JStr ''Regulator'')]),
      (''evidence'', JList [JDict [(''method'', JStr ''bogus''), (''references'', JList [])]])]"

section \<open>Helper lemmas\<close>

lemma length_concat_map_ge:
  "x \<in> set xs \<Longrightarrow> length (f x) \<le> length (concat (map f xs))"
  by (induction xs) auto

lemma fold_union_set:
  "fold (\<lambda>x refs. refs \<union> set (f x)) xs S = S \<union> (\<Union>x \<in> set xs. set (f x))"
  by (induction xs arbitrary: S) auto

lemma Module_references_sorted_list_of_set:
  "Module_references m = sorted_list_of_set (attached_citations m)"
  by (simp add: Module_references_def attached_citations_def fold_union_set Let_def)

lemma finite_attached_citations: "finite (attached_citations m)"
  by (simp add: attached_citations_def)

lemma map_result_Inr: "map_result (\<lambda>x. Inr (f x)) xs = Inr (map f xs)"
  by (induction xs) (simp_all add: and_then_def)

lemma map_result_TypeError: "xs \<noteq> [] \<Longrightarrow> map_result (\<lambda>x. Inl TypeError) xs = Inl TypeError"
  by (cases xs) (simp_all add: and_then_def)

lemma GeneFunction_validate_eq:
  "GeneFunction_validate vcl g kw
     = (if kw \<noteq> [] \<and> gf_evidence g \<noteq> [] then Inl TypeError
        else Inr (GeneFunction_function_issues g @ GeneFunction_details_issues g
                  @ (case gf_mutation_phenotype g of
                       None \<Rightarrow> []
                     | Some p \<Rightarrow> MutationPhenotype_validate vcl p kw)
                  @ concat (map (FunctionEvidence_validate vcl) (gf_evidence g))))"
proof (cases "kw = []")
  case True
  then show ?thesis
    by (simp add: GeneFunction_validate_def FunctionEvidence_validate_kwargs_def
        map_result_Inr and_then_def Let_def split: option.splits)
next
  case False
  then show ?thesis
    by (cases "gf_evidence g = []")
       (simp_all add: GeneFunction_validate_def FunctionEvidence_validate_kwargs_def
          map_result_TypeError and_then_def Let_def)
qed

subsection \<open>Dicts, results and the round trip\<close>

lemma is_list_iff: "is_list v \<longleftrightarrow> (\<exists>xs. v = JList xs)"
  by (cases v) auto

lemma map_of_setitem: "map_of (setitem d k v) = (map_of d)(k \<mapsto> v)"
  by (induction d) (auto simp add: fun_eq_iff)

lemma map_of_dict_merge:
  "distinct (map fst e) \<Longrightarrow> map_of (dict_merge d e) = map_of d ++ map_of e"
proof (induction e arbitrary: d)
  case Nil
  then show ?case by (simp add: dict_merge_def)
next
  case (Cons x e)
  have "dict_merge d (x # e) = dict_merge (setitem d (fst x) (snd x)) e"
    by (simp add: dict_merge_def)
  moreover have "map_of e (fst x) = None"
    using Cons.prems by (simp add: map_of_eq_None_iff)
  ultimately show ?case
    using Cons.IH [of "setitem d (fst x) (snd x)"] Cons.prems
    by (cases x) (auto simp add: map_of_setitem fun_eq_iff map_add_def split: option.splits)
qed

lemma sem_map_of: "map_of (map (map_prod id sem) d) k = map_option sem (map_of d k)"
  by (induction d) auto

lemma and_then_Inr: "and_then r f = Inr y \<longleftrightarrow> (\<exists>x. r = Inr x \<and> f x = Inr y)"
  by (cases r) (simp_all add: and_then_def)

lemma map_result_sem:
  assumes "map_result f xs = Inr ys"
      and "\<And>x y. x \<in> set xs \<Longrightarrow> f x = Inr y \<Longrightarrow> sem (tj y) = sem x"
  shows "map sem (map tj ys) = map sem xs"
  using assms
proof (induction xs arbitrary: ys)
  case Nil
  then show ?case by simp
next
  case (Cons x xs)
  from Cons.prems(1) obtain y ys' where
    y: "f x = Inr y" "map_result f xs = Inr ys'" "ys = y # ys'"
    by (auto simp add: and_then_Inr)
  have "sem (tj y) = sem x"
    using Cons.prems(2) [of x y] y(1) by simp
  moreover have "map sem (map tj ys') = map sem xs"
    using Cons.IH [OF y(2)] Cons.prems(2) by simp
  ultimately show ?case using y(3) by simp
qed

lemma ModuleType_of_Inr: "ModuleType_of tag = Inr mt \<Longrightarrow> tag = JStr (ModuleType_value mt)"
  by (auto simp add: ModuleType_of_def find_Some_iff split: option.splits)

lemma map_of_filter_key:
  "map_of (filter (\<lambda>kv. P (fst kv)) xs) k = (if P k then map_of xs k else None)"
  by (induction xs) auto

lemma map_of_map_value:
  "map_of (map (\<lambda>kv. if fst kv = k0 then (fst kv, f (snd kv)) else kv) xs) k
     = (if k = k0 then map_option f (map_of xs k) else map_of xs k)"
  by (induction xs) auto

lemma map_of_strip_null:
  "map_of (strip_null d) k = (if map_of d k = Some JNull then None else map_of d k)"
  unfolding strip_null_def
  by (simp add: map_of_filter_key [of "\<lambda>k. map_of d k \<noteq> Some JNull"])

lemma map_of_omit_empty:
  "map_of (omit_empty raw) k
     = (if empty_optional raw k then None
        else if k = ''non_canonical_activity'' then map_option strip_activity (map_of raw k)
        else map_of raw k)"
  unfolding omit_empty_def
  by (simp add: map_of_map_value map_of_filter_key [of "\<lambda>k. \<not> empty_optional raw k"])

lemma activity_round_trip:
  assumes ok: "NonCanonicalActivity_from_json I v kw = Inr a"
      and wf: "well_formed_activity v"
      and rt: "\<And>j e. j \<in> set (activity_evidence_items v)
                 \<Longrightarrow> NcaEvidence_from_json I j kw = Inr e
                 \<Longrightarrow> sem (NcaEvidence_to_json e) = sem j"
  shows "sem (JDict (NonCanonicalActivity_to_json a)) = sem (strip_activity v)"
proof -
  from wf obtain d xs where v: "v = JDict d"
    and keys: "list_all (\<lambda>kv. fst kv \<in> set [''evidence'', ''iterations'', ''nonElongating'',
                                             ''skipped'']) d"
    and ev: "map_of d ''evidence'' = Some (JList xs)"
    by (auto simp add: well_formed_activity_def is_list_iff split: json.splits option.splits)
  from ok v ev obtain evs where evs: "map_result (\<lambda>x. NcaEvidence_from_json I x kw) xs = Inr evs"
    and a: "a = \<lparr>evidence = evs, iterations = dict_get d ''iterations'',
                 non_elongating = dict_get d ''nonElongating'', skipped = dict_get d ''skipped''\<rparr>"
    by (auto simp add: NonCanonicalActivity_from_json_def and_then_Inr getitem_def
        NonCanonicalActivity_init_def Let_def split: if_splits)
  have items: "activity_evidence_items v = xs"
    using v ev by (simp add: activity_evidence_items_def dict_get_def dict_get_default_def)
  have evl: "map sem (map NcaEvidence_to_json evs) = map sem xs"
  proof (rule map_result_sem [OF evs])
    fix x y
    assume "x \<in> set xs" "NcaEvidence_from_json I x kw = Inr y"
    then show "sem (NcaEvidence_to_json y) = sem x"
      using rt [of x y] items by simp
  qed
  have other: "map_of d k = None"
    if "k \<notin> {''evidence'', ''iterations'', ''nonElongating'', ''skipped''}" for k
  proof (cases "map_of d k")
    case None
    then show ?thesis .
  next
    case (Some w)
    then have "(k, w) \<in> set d" by (rule map_of_SomeD)
    then show ?thesis using keys that by (auto simp add: list_all_iff)
  qed
  have "map_option sem (map_of (NonCanonicalActivity_to_json a) k)
          = map_option sem (map_of (strip_null d) k)" for k
  proof -
    consider "k = ''evidence''" | "k = ''iterations''" | "k = ''nonElongating''" | "k = ''skipped''"
      | "k \<notin> {''evidence'', ''iterations'', ''nonElongating'', ''skipped''}" by blast
    then show ?thesis
    proof cases
      case 1
      then show ?thesis
        using ev evl by (simp add: NonCanonicalActivity_to_json_def a map_of_strip_null)
    next
      case 2
      then show ?thesis
        by (cases "map_of d k")
           (simp_all add: NonCanonicalActivity_to_json_def a dict_get_def dict_get_default_def
              map_of_strip_null)
    next
      case 3
      then show ?thesis
        by (cases "map_of d k")
           (simp_all add: NonCanonicalActivity_to_json_def a dict_get_def dict_get_default_def
              map_of_strip_null)
    next
      case 4
      then show ?thesis
        by (cases "map_of d k")
           (simp_all add: NonCanonicalActivity_to_json_def a dict_get_def dict_get_default_def
              map_of_strip_null)
    next
      case 5
      then show ?thesis
        using other [of k] by (simp add: NonCanonicalActivity_to_json_def a map_of_strip_null)
    qed
  qed
  then show ?thesis by (simp add: v strip_activity_def sem_map_of fun_eq_iff)
qed

lemma map_of_Module_to_json:
  assumes "distinct (map fst (ExtraInfo_to_json (extra_info m)))"
  shows "map_of (Module_to_json m) k =
     (if k = ''comment'' \<and> truthy (comment m) then Some (comment m)
      else if k = ''non_canonical_activity'' \<and> non_canonical_activity m \<noteq> None
        then map_option (\<lambda>a. JDict (NonCanonicalActivity_to_json a)) (non_canonical_activity m)
      else if k = ''integrated_monomers'' \<and> integrated_monomers m \<noteq> []
        then Some (JList (map Monomer_to_json (integrated_monomers m)))
      else case map_of (ExtraInfo_to_json (extra_info m)) k of
             Some v \<Rightarrow> Some v
           | None \<Rightarrow> map_of [(''type'', JStr (ModuleType_value (module_type m))),
                              (''name'', name m),
                              (''genes'', JList (map GeneId_to_json (genes m))),
                              (''active'', active m)] k)"
  using assms
  by (simp add: Module_to_json_def Let_def map_of_setitem map_of_dict_merge map_add_def
      split: option.splits)

lemma Module_from_json_InrD:
  assumes "Module_from_json I raw kw = Inr m"
  obtains tag ei gene_items monomer_items where
    "map_of raw ''type'' = Some tag" "ModuleType_of tag = Inr (module_type m)"
    "MAPPING I (module_type m) raw kw = Inr ei" "extra_info m = ei"
    "if truthy (dict_get raw ''non_canonical_activity'')
     then \<exists>v a. map_of raw ''non_canonical_activity'' = Some v
                \<and> NonCanonicalActivity_from_json I v kw = Inr a
                \<and> non_canonical_activity m = Some a
     else non_canonical_activity m = None"
    "map_of raw ''name'' = Some (name m)"
    "\<exists>genes_raw. map_of raw ''genes'' = Some genes_raw \<and> py_iter genes_raw = Inr gene_items"
    "map_result (\<lambda>gene. GeneId_from_json I gene kw) gene_items = Inr (genes m)"
    "map_of raw ''active'' = Some (active m)"
    "py_iter (dict_get_default raw ''integrated_monomers'' (JList [])) = Inr monomer_items"
    "map_result (Monomer_from_json I) monomer_items = Inr (integrated_monomers m)"
    "comment m = dict_get raw ''comment''"
proof -
  from assms obtain tag mt ei nc nm genes_raw gene_items gs act monomer_items ims where
    a: "getitem raw ''type'' = Inr tag" "ModuleType_of tag = Inr mt"
       "MAPPING I mt raw kw = Inr ei"
    and b: "(if truthy (dict_get raw ''non_canonical_activity'')
         then and_then (getitem raw ''non_canonical_activity'') (\<lambda>nca_raw.
              and_then (NonCanonicalActivity_from_json I nca_raw kw) (\<lambda>a. Inr (Some a)))
         else Inr None) = Inr nc"
    and c: "getitem raw ''name'' = Inr nm" "getitem raw ''genes'' = Inr genes_raw"
       "py_iter genes_raw = Inr gene_items"
       "map_result (\<lambda>gene. GeneId_from_json I gene kw) gene_items = Inr gs"
       "getitem raw ''active'' = Inr act"
       "py_iter (dict_get_default raw ''integrated_monomers'' (JList [])) = Inr monomer_items"
       "map_result (Monomer_from_json I) monomer_items = Inr ims"
    and d: "Module_init mt nm gs act ei ims nc (dict_get raw ''comment'')
             (kw_validate kw) (kw_rest kw) = Inr m"
    unfolding Module_from_json_def and_then_Inr by (auto split: if_splits)
  from d have m: "m = \<lparr>module_type = mt, name = nm, genes = gs, active = act, extra_info = ei,
                integrated_monomers = ims, non_canonical_activity = nc,
                comment = dict_get raw ''comment''\<rparr>"
    by (auto simp add: Module_init_def Let_def split: if_splits)
  have g: "map_of raw k = Some v" if "getitem raw k = Inr v" for k v
    using that by (auto simp add: getitem_def split: option.splits)
  have nc: "if truthy (dict_get raw ''non_canonical_activity'')
     then \<exists>v a. map_of raw ''non_canonical_activity'' = Some v
                \<and> NonCanonicalActivity_from_json I v kw = Inr a
                \<and> non_canonical_activity m = Some a
     else non_canonical_activity m = None"
    using b by (auto simp add: m and_then_Inr dest: g split: if_splits)
  show thesis
    using that [of tag ei gene_items monomer_items] a c nc
    by (simp add: m g)
qed


lemma payload_keys:
  assumes rt: "parts_round_trip I raw kw"
      and tag: "map_of raw ''type'' = Some tag" "ModuleType_of tag = Inr mt"
      and ei: "MAPPING I mt raw kw = Inr ei"
  shows "distinct (map fst (ExtraInfo_to_json ei))"
    and "k \<in> set Module_keys \<Longrightarrow> map_of (ExtraInfo_to_json ei) k = None"
    and "k \<notin> set Module_keys \<Longrightarrow>
           map_option sem (map_of (ExtraInfo_to_json ei) k) = map_option sem (map_of raw k)"
proof -
  have "ModuleType_of (dict_get raw ''type'') = Inr mt"
    using tag by (simp add: dict_get_def dict_get_default_def)
  with rt ei have *: "distinct (map fst (ExtraInfo_to_json ei))
      \<and> (\<forall>k. map_option sem (map_of (ExtraInfo_to_json ei) k)
                 = (if k \<in> set Module_keys then None else map_option sem (map_of raw k)))"
    unfolding parts_round_trip_def by blast
  show "distinct (map fst (ExtraInfo_to_json ei))" using * by simp
  show "map_of (ExtraInfo_to_json ei) k = None" if "k \<in> set Module_keys"
    using * that by (metis map_option_is_None)
  show "map_option sem (map_of (ExtraInfo_to_json ei) k) = map_option sem (map_of raw k)"
    if "k \<notin> set Module_keys"
    using * that by simp
qed

lemma module_round_trip_core:
  assumes rt: "parts_round_trip I raw kw" and wf: "well_formed raw"
      and ok: "Module_from_json I raw kw = Inr m"
  shows "sem (JDict (Module_to_json m)) = sem (JDict (omit_empty raw))"
proof -
  from ok obtain tag ei gene_items monomer_items where
    tag: "map_of raw ''type'' = Some tag" and mt: "ModuleType_of tag = Inr (module_type m)"
    and ei: "MAPPING I (module_type m) raw kw = Inr ei" "extra_info m = ei"
    and nc: "if truthy (dict_get raw ''non_canonical_activity'')
       then \<exists>v a. map_of raw ''non_canonical_activity'' = Some v
                  \<and> NonCanonicalActivity_from_json I v kw = Inr a
                  \<and> non_canonical_activity m = Some a
       else non_canonical_activity m = None"
    and nm: "map_of raw ''name'' = Some (name m)"
    and gr: "\<exists>genes_raw. map_of raw ''genes'' = Some genes_raw \<and> py_iter genes_raw = Inr gene_items"
    and gs: "map_result (\<lambda>gene. GeneId_from_json I gene kw) gene_items = Inr (genes m)"
    and act: "map_of raw ''active'' = Some (active m)"
    and mr: "py_iter (dict_get_default raw ''integrated_monomers'' (JList [])) = Inr monomer_items"
    and ims: "map_result (Monomer_from_json I) monomer_items = Inr (integrated_monomers m)"
    and cm: "comment m = dict_get raw ''comment''"
    by (rule Module_from_json_InrD)
  note pk = payload_keys [OF rt tag mt ei(1)]
  have ev_rt: "sem (NcaEvidence_to_json e) = sem j"
    if "j \<in> set (activity_evidence_items (dict_get raw ''non_canonical_activity''))"
      and "NcaEvidence_from_json I j kw = Inr e" for j e
    using rt that unfolding parts_round_trip_def by blast
  have gene_rt: "sem (GeneId_to_json g) = sem j"
    if "j \<in> set (list_items (dict_get raw ''genes''))"
      and "GeneId_from_json I j kw = Inr g" for j g
    using rt that unfolding parts_round_trip_def by blast
  have mono_rt: "sem (Monomer_to_json mo) = sem j"
    if "j \<in> set (list_items (dict_get raw ''integrated_monomers''))"
      and "Monomer_from_json I j = Inr mo" for j mo
    using rt that unfolding parts_round_trip_def by blast
  have kept: "map_of (omit_empty raw) k = map_of raw k"
    if "k \<notin> {''comment'', ''integrated_monomers'', ''non_canonical_activity''}" for k
    using that by (simp add: map_of_omit_empty empty_optional_def)
  have k_type: "map_option sem (map_of (Module_to_json m) ''type'')
                  = map_option sem (map_of (omit_empty raw) ''type'')"
    using pk(2) [of "''type''"] tag ModuleType_of_Inr [OF mt]
    by (simp add: map_of_Module_to_json pk(1) ei(2) Module_keys_def kept)
  have k_name: "map_option sem (map_of (Module_to_json m) ''name'')
                  = map_option sem (map_of (omit_empty raw) ''name'')"
    using pk(2) [of "''name''"] nm
    by (simp add: map_of_Module_to_json pk(1) ei(2) Module_keys_def kept)
  have k_active: "map_option sem (map_of (Module_to_json m) ''active'')
                    = map_option sem (map_of (omit_empty raw) ''active'')"
    using pk(2) [of "''active''"] act
    by (simp add: map_of_Module_to_json pk(1) ei(2) Module_keys_def kept)
  have k_genes: "map_option sem (map_of (Module_to_json m) ''genes'')
                   = map_option sem (map_of (omit_empty raw) ''genes'')"
  proof -
    from wf gr have g: "map_of raw ''genes'' = Some (JList gene_items)"
      by (auto simp add: well_formed_def is_list_iff split: option.splits)
    then have li: "list_items (dict_get raw ''genes'') = gene_items"
      by (simp add: dict_get_def dict_get_default_def)
    have "map sem (map GeneId_to_json (genes m)) = map sem gene_items"
    proof (rule map_result_sem [OF gs])
      fix x y
      assume "x \<in> set gene_items" "GeneId_from_json I x kw = Inr y"
      then show "sem (GeneId_to_json y) = sem x"
        using gene_rt [of x y] li by simp
    qed
    with g show ?thesis
      using pk(2) [of "''genes''"]
      by (simp add: map_of_Module_to_json pk(1) ei(2) Module_keys_def kept)
  qed
  have k_monomers: "map_option sem (map_of (Module_to_json m) ''integrated_monomers'')
                     = map_option sem (map_of (omit_empty raw) ''integrated_monomers'')"
  proof -
    have out: "map_of (Module_to_json m) ''integrated_monomers''
                 = (if integrated_monomers m = [] then None
                    else Some (JList (map Monomer_to_json (integrated_monomers m))))"
      using pk(2) [of "''integrated_monomers''"]
      by (simp add: map_of_Module_to_json pk(1) ei(2) Module_keys_def)
    have oe: "map_of (omit_empty raw) ''integrated_monomers''
                = (if dict_get raw ''integrated_monomers'' = JList [] then None
                   else map_of raw ''integrated_monomers'')"
      by (simp add: map_of_omit_empty empty_optional_def)
    show ?thesis
    proof (cases "map_of raw ''integrated_monomers''")
      case None
      then have "monomer_items = []"
        using mr by (simp add: dict_get_default_def)
      then have "integrated_monomers m = []"
        using ims by simp
      then show ?thesis
        by (simp add: out oe None)
    next
      case (Some v)
      then have "is_list v"
        using wf by (simp add: well_formed_def)
      then obtain xs where v: "v = JList xs"
        by (cases v) simp_all
      have mx: "monomer_items = xs"
        using mr Some v by (simp add: dict_get_default_def)
      have li: "dict_get raw ''integrated_monomers'' = JList monomer_items"
        using Some v mx by (simp add: dict_get_def dict_get_default_def)
      have l: "map sem (map Monomer_to_json (integrated_monomers m)) = map sem monomer_items"
      proof (rule map_result_sem [OF ims])
        fix x y
        assume "x \<in> set monomer_items" "Monomer_from_json I x = Inr y"
        then show "sem (Monomer_to_json y) = sem x"
          using mono_rt [of x y] li by simp
      qed
      have "length (map sem (map Monomer_to_json (integrated_monomers m)))
              = length (map sem monomer_items)"
        by (simp only: l)
      then have len: "length (integrated_monomers m) = length monomer_items"
        by (simp only: length_map)
      show ?thesis
      proof (cases "xs = []")
        case True
        then have "integrated_monomers m = []"
          using len mx by simp
        then show ?thesis
          using True by (simp add: out oe li mx)
      next
        case False
        then have ne: "integrated_monomers m \<noteq> []"
          using len mx by auto
        have "sem (JList (map Monomer_to_json (integrated_monomers m))) = sem (JList xs)"
          by (simp only: sem.simps l mx)
        then show ?thesis
          using ne False by (simp add: out oe li mx Some v)
      qed
    qed
  qed
  have k_nca: "map_option sem (map_of (Module_to_json m) ''non_canonical_activity'')
                 = map_option sem (map_of (omit_empty raw) ''non_canonical_activity'')"
  proof -
    have out: "map_of (Module_to_json m) ''non_canonical_activity''
                 = map_option (\<lambda>a. JDict (NonCanonicalActivity_to_json a))
                     (non_canonical_activity m)"
      using pk(2) [of "''non_canonical_activity''"]
      by (cases "non_canonical_activity m")
         (simp_all add: map_of_Module_to_json pk(1) ei(2) Module_keys_def)
    have oe: "map_of (omit_empty raw) ''non_canonical_activity''
                = (if truthy (dict_get raw ''non_canonical_activity'')
                   then map_option strip_activity (map_of raw ''non_canonical_activity'')
                   else None)"
      by (simp add: map_of_omit_empty empty_optional_def)
    show ?thesis
    proof (cases "truthy (dict_get raw ''non_canonical_activity'')")
      case False
      then have "non_canonical_activity m = None"
        using nc by simp
      then show ?thesis
        using False by (simp add: out oe)
    next
      case True
      then obtain v a where va: "map_of raw ''non_canonical_activity'' = Some v"
          "NonCanonicalActivity_from_json I v kw = Inr a" "non_canonical_activity m = Some a"
        using nc by auto
      have dv: "dict_get raw ''non_canonical_activity'' = v"
        using va(1) by (simp add: dict_get_def dict_get_default_def)
      have wfa: "well_formed_activity v"
        using wf va(1) True dv by (simp add: well_formed_def)
      have "sem (JDict (NonCanonicalActivity_to_json a)) = sem (strip_activity v)"
      proof (rule activity_round_trip [OF va(2) wfa])
        fix j e
        assume "j \<in> set (activity_evidence_items v)" "NcaEvidence_from_json I j kw = Inr e"
        then show "sem (NcaEvidence_to_json e) = sem j"
          using ev_rt [of j e] dv by simp
      qed
      then show ?thesis
        using True by (simp add: out oe va(1) va(3))
    qed
  qed
  have k_comment: "map_option sem (map_of (Module_to_json m) ''comment'')
                     = map_option sem (map_of (omit_empty raw) ''comment'')"
  proof -
    have out: "map_of (Module_to_json m) ''comment''
                 = (if truthy (dict_get raw ''comment'') then Some (dict_get raw ''comment'')
                    else None)"
      using pk(2) [of "''comment''"]
      by (simp add: map_of_Module_to_json pk(1) ei(2) Module_keys_def cm)
    have oe: "map_of (omit_empty raw) ''comment''
                = (if truthy (dict_get raw ''comment'') then map_of raw ''comment'' else None)"
      by (simp add: map_of_omit_empty empty_optional_def)
    show ?thesis
      by (cases "map_of raw ''comment''")
         (simp_all add: out oe dict_get_def dict_get_default_def)
  qed
  have k_other: "map_option sem (map_of (Module_to_json m) k)
                   = map_option sem (map_of (omit_empty raw) k)"
    if "k \<notin> set Module_keys" for k
  proof -
    have "map_of (omit_empty raw) k = map_of raw k"
      using that by (simp add: kept Module_keys_def)
    then show ?thesis
      using pk(3) [OF that] that
      by (cases "map_of (ExtraInfo_to_json ei) k")
         (auto simp add: map_of_Module_to_json pk(1) ei(2) Module_keys_def)
  qed
  have "map_option sem (map_of (Module_to_json m) k)
          = map_option sem (map_of (omit_empty raw) k)" for k
  proof (cases "k \<in> set Module_keys")
    case True
    then show ?thesis
      using k_type k_name k_genes k_active k_monomers k_nca k_comment
      by (auto simp add: Module_keys_def)
  next
    case False
    then show ?thesis by (rule k_other)
  qed
  then show ?thesis by (simp add: sem_map_of fun_eq_iff)
qed

lemma MAPPING_example_imported:
  "MAPPING example_imported t raw kw
     = Inr (example_payload (filter (\<lambda>kv. fst kv \<notin> set Module_keys) raw) [])"
  by (cases t) (simp_all add: example_imported_def Let_def)

lemma example_imported_round_trip:
  assumes "distinct (map fst raw)"
  shows "parts_round_trip example_imported raw kw"
  unfolding parts_round_trip_def
proof (intro conjI allI impI)
  fix mt and p :: "(nat, string list) ExtraInfo"
  assume "ModuleType_of (dict_get raw ''type'') = Inr mt
          \<and> MAPPING example_imported mt raw kw = Inr p"
  then have p: "ExtraInfo_to_json p = filter (\<lambda>kv. fst kv \<notin> set Module_keys) raw"
    by (auto simp add: MAPPING_example_imported example_payload_def)
  show "distinct (map fst (ExtraInfo_to_json p))"
    using assms by (simp add: p distinct_map_filter)
  show "map_option sem (map_of (ExtraInfo_to_json p) k)
          = (if k \<in> set Module_keys then None else map_option sem (map_of raw k))" for k
    by (simp add: p map_of_filter_key [of "\<lambda>k. k \<notin> set Module_keys"])
next
  fix j :: json and g
  assume "j \<in> set (list_items (dict_get raw ''genes''))
          \<and> GeneId_from_json example_imported j kw = Inr g"
  then show "sem (GeneId_to_json g) = sem j"
    by (auto simp add: example_imported_def example_gene_def Let_def split: json.splits)
next
  fix j :: json and mo :: "nat Monomer"
  assume "j \<in> set (list_items (dict_get raw ''integrated_monomers''))
          \<and> Monomer_from_json example_imported j = Inr mo"
  then show "sem (Monomer_to_json mo) = sem j"
    by (auto simp add: example_imported_def example_monomer_def Let_def split: json.splits)
next
  fix j :: json and e
  assume "j \<in> set (activity_evidence_items (dict_get raw ''non_canonical_activity''))
          \<and> NcaEvidence_from_json example_imported j kw = Inr e"
  then show "sem (NcaEvidence_to_json e) = sem j"
    by (auto simp add: example_imported_def example_evidence_def Let_def)
qed

lemma MutationPhenotype_to_json_details:
  "map_of (MutationPhenotype_to_json ctj p) ''details''
     = (if truthy (mp_details p) then Some (mp_details p) else None)"
  by (simp add: MutationPhenotype_to_json_def Let_def)

lemma GeneFunction_to_json_details:
  "map_of (GeneFunction_to_json ctj g) ''function''
     = Some (JDict (if truthy (gf_details g)
                    then [(''name'', gf_function g), (''details'', gf_details g)]
                    else [(''name'', gf_function g)]))"
  by (simp add: GeneFunction_to_json_def Let_def map_of_setitem split: option.splits)

lemma module_omission:
  assumes rt: "parts_round_trip I raw kw" and ok: "Module_from_json I raw kw = Inr m"
  shows "map_of (Module_to_json m) ''comment''
           = (if truthy (dict_get raw ''comment'') then Some (dict_get raw ''comment'') else None)"
    and "map_of (Module_to_json m) ''integrated_monomers''
           = (if integrated_monomers m = [] then None
              else Some (JList (map Monomer_to_json (integrated_monomers m))))"
    and "map_of (Module_to_json m) ''non_canonical_activity''
           = map_option (\<lambda>a. JDict (NonCanonicalActivity_to_json a)) (non_canonical_activity m)"
    and "dict_get_default raw ''integrated_monomers'' (JList []) = JList []
           \<Longrightarrow> integrated_monomers m = []"
    and "\<not> truthy (dict_get raw ''non_canonical_activity'') \<Longrightarrow> non_canonical_activity m = None"
proof -
  from ok obtain tag ei gene_items monomer_items where
    tag: "map_of raw ''type'' = Some tag" "ModuleType_of tag = Inr (module_type m)"
    and ei: "MAPPING I (module_type m) raw kw = Inr ei" "extra_info m = ei"
    and nc: "if truthy (dict_get raw ''non_canonical_activity'')
       then \<exists>v a. map_of raw ''non_canonical_activity'' = Some v
                  \<and> NonCanonicalActivity_from_json I v kw = Inr a
                  \<and> non_canonical_activity m = Some a
       else non_canonical_activity m = None"
    and mr: "py_iter (dict_get_default raw ''integrated_monomers'' (JList [])) = Inr monomer_items"
    and ims: "map_result (Monomer_from_json I) monomer_items = Inr (integrated_monomers m)"
    and cm: "comment m = dict_get raw ''comment''"
    by (rule Module_from_json_InrD)
  note pk = payload_keys [OF rt tag ei(1)]
  show "map_of (Module_to_json m) ''comment''
           = (if truthy (dict_get raw ''comment'') then Some (dict_get raw ''comment'') else None)"
    using pk(2) [of "''comment''"]
    by (simp add: map_of_Module_to_json pk(1) ei(2) Module_keys_def cm)
  show "map_of (Module_to_json m) ''integrated_monomers''
           = (if integrated_monomers m = [] then None
              else Some (JList (map Monomer_to_json (integrated_monomers m))))"
    using pk(2) [of "''integrated_monomers''"]
    by (simp add: map_of_Module_to_json pk(1) ei(2) Module_keys_def)
  show "map_of (Module_to_json m) ''non_canonical_activity''
           = map_option (\<lambda>a. JDict (NonCanonicalActivity_to_json a)) (non_canonical_activity m)"
    using pk(2) [of "''non_canonical_activity''"]
    by (cases "non_canonical_activity m")
       (simp_all add: map_of_Module_to_json pk(1) ei(2) Module_keys_def)
  show "integrated_monomers m = []"
    if "dict_get_default raw ''integrated_monomers'' (JList []) = JList []"
    using mr ims that by simp
  show "non_canonical_activity m = None" if "\<not> truthy (dict_get raw ''non_canonical_activity'')"
    using nc that by simp
qed

section \<open>Round trip of a Module\<close>

text \<open>
  C1. Take a raw module whose parts the imported classes give back as they were. For every
  module type, when the raw module is well-formed and \<open>Module.from_json\<close> accepts it,
  \<open>to_json\<close> of the module built denotes the raw input without its empty optional fields:
  the same keys with the same values, up to the order of the keys of a dict, and exactly
  the raw input when it has nothing to omit. An optional field that the raw input lacks or
  holds empty is not written, and none is written as null: \<open>comment\<close>,
  \<open>integrated_monomers\<close>, \<open>non_canonical_activity\<close> of a Module, \<open>details\<close> of a
  MutationPhenotype and of the \<open>function\<close> of a GeneFunction.
\<close>

theorem module_round_trip:
  assumes "parts_round_trip I raw kw" and "Module_from_json I raw kw = Inr m"
  shows "(well_formed raw \<longrightarrow> sem (JDict (Module_to_json m)) = sem (JDict (omit_empty raw)))
       \<and> (well_formed raw \<and> omit_empty raw = raw \<longrightarrow>
            sem (JDict (Module_to_json m)) = sem (JDict raw))
       \<and> (\<not> truthy (dict_get raw ''comment'') \<longrightarrow>
            map_of (Module_to_json m) ''comment'' = None)
       \<and> (dict_get_default raw ''integrated_monomers'' (JList []) = JList [] \<longrightarrow>
            map_of (Module_to_json m) ''integrated_monomers'' = None)
       \<and> (\<not> truthy (dict_get raw ''non_canonical_activity'') \<longrightarrow>
            map_of (Module_to_json m) ''non_canonical_activity'' = None)
       \<and> (\<forall>k \<in> set [''comment'', ''integrated_monomers'', ''non_canonical_activity''].
            map_of (Module_to_json m) k \<noteq> Some JNull)
       \<and> (\<not> truthy (mp_details p) \<longrightarrow>
            map_of (MutationPhenotype_to_json ctj p) ''details'' = None)
       \<and> (\<not> truthy (gf_details g) \<longrightarrow>
            map_of (GeneFunction_to_json ctj g) ''function''
              = Some (JDict [(''name'', gf_function g)]))"
proof (intro conjI impI)
  assume "well_formed raw"
  with assms(1) show "sem (JDict (Module_to_json m)) = sem (JDict (omit_empty raw))"
    using assms(2) by (rule module_round_trip_core)
next
  assume a: "well_formed raw \<and> omit_empty raw = raw"
  then have "sem (JDict (Module_to_json m)) = sem (JDict (omit_empty raw))"
    using module_round_trip_core [OF assms(1) _ assms(2)] by blast
  then show "sem (JDict (Module_to_json m)) = sem (JDict raw)"
    using a by simp
next
  note om = module_omission [OF assms]
  show "map_of (Module_to_json m) ''comment'' = None" if "\<not> truthy (dict_get raw ''comment'')"
    using that by (simp add: om(1))
  show "map_of (Module_to_json m) ''integrated_monomers'' = None"
    if "dict_get_default raw ''integrated_monomers'' (JList []) = JList []"
    using om(4) [OF that] by (simp add: om(2))
  show "map_of (Module_to_json m) ''non_canonical_activity'' = None"
    if "\<not> truthy (dict_get raw ''non_canonical_activity'')"
    using om(5) [OF that] by (simp add: om(3))
  show "\<forall>k \<in> set [''comment'', ''integrated_monomers'', ''non_canonical_activity''].
          map_of (Module_to_json m) k \<noteq> Some JNull"
    by (cases "non_canonical_activity m") (auto simp add: om(1,2,3))
next
  assume "\<not> truthy (mp_details p)"
  then show "map_of (MutationPhenotype_to_json ctj p) ''details'' = None"
    by (simp add: MutationPhenotype_to_json_details)
next
  assume "\<not> truthy (gf_details g)"
  then show "map_of (GeneFunction_to_json ctj g) ''function''
               = Some (JDict [(''name'', gf_function g)])"
    by (simp add: GeneFunction_to_json_details)
qed

theorem module_round_trip_witness:
  "parts_round_trip example_imported example_raw []
   \<and> well_formed example_raw \<and> omit_empty example_raw = example_raw
   \<and> (\<exists>m. Module_from_json example_imported example_raw [] = Inr m
          \<and> sem (JDict (Module_to_json m)) = sem (JDict example_raw))
   \<and> parts_round_trip example_imported example_raw_empty []
   \<and> well_formed example_raw_empty
   \<and> omit_empty example_raw_empty
       = [(''type'', JStr ''cal''), (''name'', JStr ''m2''), (''genes'', JList []),
          (''active'', JBool False), (''subtype'', JStr ''x'')]
   \<and> (\<exists>m. Module_from_json example_imported example_raw_empty [] = Inr m
          \<and> sem (JDict (Module_to_json m)) = sem (JDict (omit_empty example_raw_empty))
          \<and> map_of (Module_to_json m) ''comment'' = None
          \<and> map_of (Module_to_json m) ''integrated_monomers'' = None
          \<and> map_of (Module_to_json m) ''non_canonical_activity'' = None)
   \<and> parts_round_trip example_imported example_raw_null []
   \<and> well_formed example_raw_null
   \<and> map_of (omit_empty example_raw_null) ''non_canonical_activity''
       = Some (JDict [(''evidence'', JList [JDict [(''method'', JStr ''Activity assay'')]]),
                      (''skipped'', JBool True)])
   \<and> (\<exists>m. Module_from_json example_imported example_raw_null [] = Inr m
          \<and> sem (JDict (Module_to_json m)) = sem (JDict (omit_empty example_raw_null)))"
proof -
  have rt: "parts_round_trip example_imported example_raw []"
    by (rule example_imported_round_trip) (simp add: example_raw_def)
  have rt': "parts_round_trip example_imported example_raw_empty []"
    by (rule example_imported_round_trip) (simp add: example_raw_empty_def)
  have rt'': "parts_round_trip example_imported example_raw_null []"
    by (rule example_imported_round_trip) (simp add: example_raw_null_def)
  have wf: "well_formed example_raw"
    by (simp add: well_formed_def well_formed_activity_def example_raw_def)
  have wf': "well_formed example_raw_empty"
    by (simp add: well_formed_def example_raw_empty_def)
  have wf'': "well_formed example_raw_null"
    by (simp add: well_formed_def well_formed_activity_def example_raw_null_def)
  have oe: "omit_empty example_raw = example_raw"
    by (simp add: omit_empty_def empty_optional_def strip_activity_def strip_null_def
        example_raw_def dict_get_def dict_get_default_def)
  have oe': "omit_empty example_raw_empty
       = [(''type'', JStr ''cal''), (''name'', JStr ''m2''), (''genes'', JList []),
          (''active'', JBool False), (''subtype'', JStr ''x'')]"
    by (simp add: omit_empty_def empty_optional_def strip_activity_def strip_null_def
        example_raw_empty_def dict_get_def dict_get_default_def)
  have oe'': "map_of (omit_empty example_raw_null) ''non_canonical_activity''
       = Some (JDict [(''evidence'', JList [JDict [(''method'', JStr ''Activity assay'')]]),
                      (''skipped'', JBool True)])"
    by (simp add: omit_empty_def empty_optional_def strip_activity_def strip_null_def
        example_raw_null_def dict_get_def dict_get_default_def)
  have e: "\<not> truthy (dict_get example_raw_empty ''comment'')"
    "dict_get_default example_raw_empty ''integrated_monomers'' (JList []) = JList []"
    "\<not> truthy (dict_get example_raw_empty ''non_canonical_activity'')"
    by (simp_all add: example_raw_empty_def dict_get_def dict_get_default_def)
  obtain m where m: "Module_from_json example_imported example_raw [] = Inr m"
    by (simp add: Module_from_json_def example_raw_def and_then_def getitem_def
        ModuleType_of_def ModuleType_members_def MAPPING_example_imported dict_get_def
        dict_get_default_def NonCanonicalActivity_from_json_def NonCanonicalActivity_init_def
        NonCanonicalActivity_validate_def example_imported_def example_evidence_def
        example_gene_def example_monomer_def example_payload_def Module_keys_def
        Module_init_def Module_validate_def kw_clash_def kw_validate_def kw_rest_def kw_get_def
        Let_def)
  obtain m' where m': "Module_from_json example_imported example_raw_empty [] = Inr m'"
    by (simp add: Module_from_json_def example_raw_empty_def and_then_def getitem_def
        ModuleType_of_def ModuleType_members_def MAPPING_example_imported dict_get_def
        dict_get_default_def example_imported_def example_payload_def Module_keys_def
        Module_init_def Module_validate_def kw_clash_def kw_validate_def kw_rest_def kw_get_def
        Let_def)
  obtain m'' where m'': "Module_from_json example_imported example_raw_null [] = Inr m''"
    by (simp add: Module_from_json_def example_raw_null_def and_then_def getitem_def
        ModuleType_of_def ModuleType_members_def MAPPING_example_imported dict_get_def
        dict_get_default_def NonCanonicalActivity_from_json_def NonCanonicalActivity_init_def
        NonCanonicalActivity_validate_def example_imported_def example_evidence_def
        example_gene_def example_payload_def Module_keys_def
        Module_init_def Module_validate_def kw_clash_def kw_validate_def kw_rest_def kw_get_def
        Let_def)
  from module_round_trip [OF rt m] wf oe
  have 1: "sem (JDict (Module_to_json m)) = sem (JDict example_raw)"
    by blast
  from module_round_trip [OF rt' m'] wf' e
  have 2: "sem (JDict (Module_to_json m')) = sem (JDict (omit_empty example_raw_empty))"
    "map_of (Module_to_json m') ''comment'' = None"
    "map_of (Module_to_json m') ''integrated_monomers'' = None"
    "map_of (Module_to_json m') ''non_canonical_activity'' = None"
    by blast+
  from module_round_trip [OF rt'' m''] wf''
  have 3: "sem (JDict (Module_to_json m'')) = sem (JDict (omit_empty example_raw_null))"
    by blast
  show ?thesis
    using rt rt' rt'' wf wf' wf'' oe oe' oe'' m m' m'' 1 2 3 by blast
qed

section \<open>Quality exemption of NonCanonicalActivity\<close>

text \<open>
  C2. A NonCanonicalActivity with an empty evidence list: under quality level \<open>FULL\<close>
  \<open>validate\<close> returns a non-empty list that holds the at-least-one-evidence issue; under
  \<open>QUESTIONABLE\<close> it returns the empty list. The other fields do not matter.
\<close>

theorem nca_quality_exemption:
  assumes "evidence a = []"
      and "map_of kwF ''quality'' = Some (KQuality FULL)"
      and "map_of kwQ ''quality'' = Some (KQuality QUESTIONABLE)"
  shows "NonCanonicalActivity_validate a kwF \<noteq> []
       \<and> ValidationErrorInfo ''NonCanonicalActivity.evidence''
            (Text ''At least one evidence must be provided'')
          \<in> set (NonCanonicalActivity_validate a kwF)
       \<and> NonCanonicalActivity_validate a kwQ = []"
  using assms by (simp add: NonCanonicalActivity_validate_def kw_get_def)

theorem nca_quality_exemption_witness:
  "evidence (example_activity\<lparr>evidence := []\<rparr>) = []
   \<and> NonCanonicalActivity_validate (example_activity\<lparr>evidence := []\<rparr>)
       [(''quality'', KQuality FULL)]
     = [ValidationErrorInfo ''NonCanonicalActivity.evidence''
          (Text ''At least one evidence must be provided'')]
   \<and> NonCanonicalActivity_validate (example_activity\<lparr>evidence := []\<rparr>)
       [(''quality'', KQuality QUESTIONABLE)]
     = []"
  using nca_quality_exemption
    [of "example_activity\<lparr>evidence := []\<rparr>"
        "[(''quality'', KQuality FULL)]" "[(''quality'', KQuality QUESTIONABLE)]"]
  by (simp add: NonCanonicalActivity_validate_def kw_get_def)

text \<open>
  C9. Whatever the keyword arguments, \<open>validate\<close> of a NonCanonicalActivity validates every
  entry of the evidence list and returns their issues, in list order, after its own issue.
  Quality level \<open>QUESTIONABLE\<close> only drops the at-least-one-evidence issue: the result is
  then exactly the issues of the evidence entries.
\<close>

theorem nca_validates_every_evidence:
  "NonCanonicalActivity_validate a kw
     = (if evidence a = [] \<and> kw_get kw ''quality'' \<noteq> KQuality QUESTIONABLE
        then [ValidationErrorInfo ''NonCanonicalActivity.evidence''
                (Text ''At least one evidence must be provided'')]
        else [])
       @ concat (map (\<lambda>e. NcaEvidence_validate e kw) (evidence a))
   \<and> (\<forall>e \<in> set (evidence a).
         set (NcaEvidence_validate e kw) \<subseteq> set (NonCanonicalActivity_validate a kw))
   \<and> (kw_get kw ''quality'' = KQuality QUESTIONABLE \<longrightarrow>
         NonCanonicalActivity_validate a kw
           = concat (map (\<lambda>e. NcaEvidence_validate e kw) (evidence a)))"
  by (auto simp add: NonCanonicalActivity_validate_def Let_def)

theorem nca_validates_every_evidence_witness:
  "kw_get [(''quality'', KQuality QUESTIONABLE)] ''quality'' = (KQuality QUESTIONABLE :: string list kwval)
   \<and> NonCanonicalActivity_validate example_activity [(''quality'', KQuality QUESTIONABLE)]
     = [ValidationErrorInfo ''Evidence.method'' (Text ''Invalid method''),
        ValidationErrorInfo ''Evidence.references'' (Text ''Invalid citation'')]
   \<and> NonCanonicalActivity_validate example_activity [(''quality'', KQuality FULL)]
     = [ValidationErrorInfo ''Evidence.method'' (Text ''Invalid method''),
        ValidationErrorInfo ''Evidence.references'' (Text ''Invalid citation'')]"
  using nca_validates_every_evidence [of example_activity "[(''quality'', KQuality QUESTIONABLE)]"]
        nca_validates_every_evidence [of example_activity "[(''quality'', KQuality FULL)]"]
  by (simp add: example_activity_def example_evidence_def kw_get_def)

section \<open>Aggregation in Module.validate\<close>

text \<open>
  C3. When the payload, one integrated monomer and one gene identifier of a Module are each
  invalid, \<open>validate\<close> returns at least three issues: all the issues of the payload, of that
  monomer and of that gene identifier are in the result (counted separately), so no part's
  validation suppresses another's.
\<close>

theorem module_validate_aggregates:
  assumes "ExtraInfo_validate (extra_info m) kw \<noteq> []"
      and "monomer \<in> set (integrated_monomers m)" and "Monomer_validate monomer \<noteq> []"
      and "gene \<in> set (genes m)" and "GeneId_validate gene (kw_get kw ''record'') \<noteq> []"
  shows "3 \<le> length (Module_validate m kw)
       \<and> length (ExtraInfo_validate (extra_info m) kw) + length (Monomer_validate monomer)
           + length (GeneId_validate gene (kw_get kw ''record''))
           \<le> length (Module_validate m kw)
       \<and> set (ExtraInfo_validate (extra_info m) kw) \<subseteq> set (Module_validate m kw)
       \<and> set (Monomer_validate monomer) \<subseteq> set (Module_validate m kw)
       \<and> set (GeneId_validate gene (kw_get kw ''record'')) \<subseteq> set (Module_validate m kw)"
proof -
  let ?p = "ExtraInfo_validate (extra_info m) kw"
  let ?ms = "concat (map Monomer_validate (integrated_monomers m))"
  let ?gs = "concat (map (\<lambda>gene. GeneId_validate gene (kw_get kw ''record'')) (genes m))"
  have m: "length (Monomer_validate monomer) \<le> length ?ms"
    using assms(2) by (rule length_concat_map_ge)
  have g: "length (GeneId_validate gene (kw_get kw ''record'')) \<le> length ?gs"
    using assms(4) by (rule length_concat_map_ge)
  have p1: "1 \<le> length ?p"
    using assms(1) by (cases ?p) auto
  have m1: "1 \<le> length (Monomer_validate monomer)"
    using assms(3) by (cases "Monomer_validate monomer") auto
  have g1: "1 \<le> length (GeneId_validate gene (kw_get kw ''record''))"
    using assms(5) by (cases "GeneId_validate gene (kw_get kw ''record'')") auto
  have len: "length ?p + length ?ms + length ?gs \<le> length (Module_validate m kw)"
    by (simp add: Module_validate_def)
  have s2: "set (Monomer_validate monomer) \<subseteq> set ?ms"
    using assms(2) by auto
  have s3: "set (GeneId_validate gene (kw_get kw ''record'')) \<subseteq> set ?gs"
    using assms(4) by auto
  have sub: "set ?p \<subseteq> set (Module_validate m kw)" "set ?ms \<subseteq> set (Module_validate m kw)"
    "set ?gs \<subseteq> set (Module_validate m kw)"
    by (auto simp add: Module_validate_def)
  show ?thesis
    using m g p1 m1 g1 len s2 s3 sub by (intro conjI; (linarith | blast))
qed

theorem module_validate_aggregates_witness:
  "ExtraInfo_validate (extra_info example_module) [(''record'', KRecord [''geneA''])] \<noteq> []
   \<and> example_monomer [] [1] \<in> set (integrated_monomers example_module)
   \<and> Monomer_validate (example_monomer [] [1 :: nat]) \<noteq> []
   \<and> example_gene ''geneB'' \<in> set (genes example_module)
   \<and> GeneId_validate (example_gene ''geneB'')
        (kw_get [(''record'', KRecord [''geneA''])] ''record'') \<noteq> []
   \<and> 3 \<le> length (Module_validate example_module [(''record'', KRecord [''geneA''])])
   \<and> Module_validate example_module [(''record'', KRecord [''geneA''])]
     = [ValidationErrorInfo ''CAL.subtype'' (Text ''Subtype must be provided''),
        ValidationErrorInfo ''Monomer.name'' (Text ''Name must be provided''),
        ValidationErrorInfo ''GeneId'' (FString ''Unknown gene: '' (JStr ''geneB''))]"
  using module_validate_aggregates
    [of example_module "[(''record'', KRecord [''geneA''])]"
        "example_monomer [] [1]" "example_gene ''geneB''"]
  by (simp add: example_module_def example_payload_def example_monomer_def example_gene_def
      Module_validate_def kw_get_def)

section \<open>The citation index of a Module\<close>

text \<open>
  C4. The property \<open>references\<close> of a Module lists exactly the citations attached to its
  monomers and to the domains of its payload, without duplicates and sorted by the order
  on citations. Two Modules with the same set of attached citations, in whatever order and
  on whatever sub-objects, have the same \<open>references\<close>.
\<close>

theorem references_order_independent:
  "set (Module_references m) = attached_citations m
   \<and> sorted (Module_references m) \<and> distinct (Module_references m)
   \<and> (attached_citations m = attached_citations m' \<longrightarrow>
        Module_references m = Module_references m')"
  by (simp add: Module_references_sorted_list_of_set finite_attached_citations)

theorem references_order_independent_witness:
  "attached_citations example_module = attached_citations example_module_reordered
   \<and> Module_references example_module = Module_references example_module_reordered
   \<and> set (Module_references example_module) = {1, 3, 5, 7}"
  using references_order_independent [of example_module example_module_reordered]
  by (auto simp add: attached_citations_def example_module_def example_module_reordered_def
      example_payload_def example_monomer_def)

section \<open>Unknown module type\<close>

text \<open>
  C5. \<open>Module.from_json\<close> on a raw input whose \<open>type\<close> is none of the nine values of
  \<open>ModuleType\<close> raises the enum's \<open>ValueError\<close>, which carries the offending tag (the spec
  calls it \<open>UnknownVariant\<close>). The result does not depend on the imported classes nor on the
  keyword arguments: no payload, gene, monomer or activity is built or validated before.
\<close>

theorem unknown_type_tag:
  assumes "map_of raw ''type'' = Some tag"
      and "tag \<notin> set (map (\<lambda>t. JStr (ModuleType_value t)) ModuleType_members)"
  shows "Module_from_json I raw kw = Inl (ValueError tag)"
proof -
  have "find (\<lambda>t. JStr (ModuleType_value t) = tag) ModuleType_members = None"
    using assms(2) by (auto simp add: find_None_iff)
  then show ?thesis
    using assms(1)
    by (simp add: Module_from_json_def and_then_def getitem_def ModuleType_of_def)
qed

theorem unknown_type_tag_witness:
  "map_of [(''type'', JStr ''bogus''), (''name'', JStr ''m1'')] ''type'' = Some (JStr ''bogus'')
   \<and> JStr ''bogus'' \<notin> set (map (\<lambda>t. JStr (ModuleType_value t)) ModuleType_members)
   \<and> length ModuleType_members = 9
   \<and> Module_from_json example_imported [(''type'', JStr ''bogus''), (''name'', JStr ''m1'')] []
     = Inl (ValueError (JStr ''bogus''))"
  using unknown_type_tag
    [of "[(''type'', JStr ''bogus''), (''name'', JStr ''m1'')]" "JStr ''bogus''"
        example_imported "[]"]
  by (simp add: ModuleType_members_def)

section \<open>Details of a gene function\<close>

text \<open>
  C7. \<open>GeneFunction.validate()\<close> returns a list that holds the details-required issue if
  and only if the function is \<open>"Other"\<close> and the details are \<open>None\<close> or empty; the validator
  of citation lists reports on citations, never that issue.
\<close>

theorem details_required_iff_other:
  assumes "\<And>refs. ValidationErrorInfo ''GeneFunction.details''
                     (Text ''Details must be provided for 'Other' function'') \<notin> set (vcl refs)"
  shows "\<exists>errors. GeneFunction_validate vcl g [] = Inr errors
           \<and> (ValidationErrorInfo ''GeneFunction.details''
                 (Text ''Details must be provided for 'Other' function'') \<in> set errors
                \<longleftrightarrow> gf_function g = JStr ''Other'' \<and> \<not> truthy (gf_details g))"
  using assms
  by (auto simp add: GeneFunction_validate_eq GeneFunction_function_issues_def
      GeneFunction_details_issues_def MutationPhenotype_validate_def
      FunctionEvidence_validate_def split: option.splits)

theorem details_required_iff_other_witness:
  "GeneFunction_validate (\<lambda>refs :: nat list. [])
     \<lparr>gf_function = JStr ''Other'', gf_evidence = [], gf_details = JNull,
      gf_mutation_phenotype = None\<rparr> []
     = Inr [ValidationErrorInfo ''GeneFunction.details''
              (Text ''Details must be provided for 'Other' function'')]
   \<and> GeneFunction_validate (\<lambda>refs :: nat list. [])
     \<lparr>gf_function = JStr ''Other'', gf_evidence = [], gf_details = JStr ''text'',
      gf_mutation_phenotype = None\<rparr> []
     = Inr []
   \<and> GeneFunction_validate (\<lambda>refs :: nat list. [])
     \<lparr>gf_function = JStr ''Tailoring'', gf_evidence = [], gf_details = JNull,
      gf_mutation_phenotype = None\<rparr> []
     = Inr []"
  using details_required_iff_other
    [of "\<lambda>refs :: nat list. []"
        "\<lparr>gf_function = JStr ''Other'', gf_evidence = [], gf_details = JNull,
          gf_mutation_phenotype = None\<rparr>"]
  by (simp add: GeneFunction_validate_eq GeneFunction_function_issues_def
      GeneFunction_details_issues_def GeneFunction_VALID_FUNCTIONS_def)

section \<open>aSModule cannot be constructed\<close>

text \<open>
  C10. \<open>aSModule.__init__\<close> never returns: with an empty or missing domain list or locus tag
  it raises \<open>MibigError\<close>; otherwise the location check reads the name \<open>location\<close>, which
  is not defined (the parameter is called \<open>locations\<close>), and raises \<open>NameError\<close>.
\<close>

theorem aSModule_never_constructed:
  "aSModule_init domains locus_tag starterModule final_module locations
     = (if truthy domains \<and> truthy locus_tag then Inl (NameError ''location'')
        else Inl (MibigError ''Domain list and locus tag are required''))
   \<and> isl (aSModule_init domains locus_tag starterModule final_module locations)"
  by (simp add: aSModule_init_def load_name_def and_then_def)

theorem aSModule_never_constructed_witness:
  "aSModule_init (JList [JStr ''PKS_KS'', JStr ''PKS_AT'']) (JStr ''ctg1_12'') (JBool True)
     (JBool False) (JList [JInt 10, JInt 250])
     = Inl (NameError ''location'')
   \<and> aSModule_init JNull (JStr ''ctg1_12'') JNull JNull JNull
     = Inl (MibigError ''Domain list and locus tag are required'')"
  using aSModule_never_constructed
    [of "JList [JStr ''PKS_KS'', JStr ''PKS_AT'']" "JStr ''ctg1_12''" "JBool True" "JBool False"
        "JList [JInt 10, JInt 250]"]
    aSModule_never_constructed [of JNull "JStr ''ctg1_12''" JNull JNull JNull]
  by simp

section \<open>The order of the issues\<close>

text \<open>
  C6 (amended). \<open>validate\<close> returns the issues of the object's own fields first and then
  the issues of every child, the children in the order in which the body of \<open>validate\<close>
  visits them, which is not the order of their declaration. \<open>Module.validate\<close>: the payload,
  each integrated monomer in list order, each gene identifier in list order, the
  non-canonical activity. \<open>GeneFunction.validate\<close>: the function issue, the details issue,
  the mutation phenotype, each evidence in list order (with keyword arguments and a
  non-empty evidence list the call raises \<open>TypeError\<close> instead). In both cases the issues
  are those of the declaration order, in another order.
\<close>

theorem validate_order:
  "Module_validate m kw
     = ExtraInfo_validate (extra_info m) kw
       @ concat (map Monomer_validate (integrated_monomers m))
       @ concat (map (\<lambda>gene. GeneId_validate gene (kw_get kw ''record'')) (genes m))
       @ (case non_canonical_activity m of
            None \<Rightarrow> []
          | Some a \<Rightarrow> NonCanonicalActivity_validate a kw)
   \<and> mset (Module_validate m kw) = mset (Module_validate_declaration_order m kw)
   \<and> GeneFunction_validate vcl g kw'
     = (if kw' \<noteq> [] \<and> gf_evidence g \<noteq> [] then Inl TypeError
        else Inr (GeneFunction_function_issues g @ GeneFunction_details_issues g
                  @ (case gf_mutation_phenotype g of
                       None \<Rightarrow> []
                     | Some p \<Rightarrow> MutationPhenotype_validate vcl p kw')
                  @ concat (map (FunctionEvidence_validate vcl) (gf_evidence g))))
   \<and> mset (GeneFunction_function_issues g @ GeneFunction_details_issues g
             @ (case gf_mutation_phenotype g of
                  None \<Rightarrow> []
                | Some p \<Rightarrow> MutationPhenotype_validate vcl p kw')
             @ concat (map (FunctionEvidence_validate vcl) (gf_evidence g)))
     = mset (GeneFunction_validate_declaration_order vcl g)"
proof (intro conjI)
  show "mset (GeneFunction_function_issues g @ GeneFunction_details_issues g
              @ (case gf_mutation_phenotype g of
                   None \<Rightarrow> []
                 | Some p \<Rightarrow> MutationPhenotype_validate vcl p kw')
              @ concat (map (FunctionEvidence_validate vcl) (gf_evidence g)))
          = mset (GeneFunction_validate_declaration_order vcl g)"
    by (simp add: GeneFunction_validate_declaration_order_def MutationPhenotype_validate_def
        split: option.splits)
qed (simp_all add: Module_validate_def Module_validate_declaration_order_def
       GeneFunction_validate_eq)

theorem validate_order_witness:
  "Module_validate example_module [(''record'', KRecord [''geneA''])]
     = [ValidationErrorInfo ''CAL.subtype'' (Text ''Subtype must be provided''),
        ValidationErrorInfo ''Monomer.name'' (Text ''Name must be provided''),
        ValidationErrorInfo ''GeneId'' (FString ''Unknown gene: '' (JStr ''geneB''))]
   \<and> GeneFunction_validate (\<lambda>refs. []) example_gene_function ([] :: unit kwargs)
     = Inr [ValidationErrorInfo ''GeneFunction.function''
              (FString ''Invalid function: '' (JStr ''Regulator'')),
            ValidationErrorInfo ''MutationPhenotype.phenotype''
              (Text ''Phenotype must be provided''),
            ValidationErrorInfo ''method'' (FString ''Invalid method: '' (JStr ''bogus''))]"
proof -
  note t = validate_order
    [of example_module "[(''record'', KRecord [''geneA''])]" "\<lambda>refs. []" example_gene_function
        "[] :: unit kwargs"]
  have m: "Module_validate example_module [(''record'', KRecord [''geneA''])]
             = ExtraInfo_validate (extra_info example_module) [(''record'', KRecord [''geneA''])]
               @ concat (map Monomer_validate (integrated_monomers example_module))
               @ concat (map (\<lambda>gene. GeneId_validate gene
                                       (kw_get [(''record'', KRecord [''geneA''])] ''record''))
                           (genes example_module))
               @ (case non_canonical_activity example_module of
                    None \<Rightarrow> []
                  | Some a \<Rightarrow> NonCanonicalActivity_validate a [(''record'', KRecord [''geneA''])])"
    using t by (rule conjunct1)
  have g: "GeneFunction_validate (\<lambda>refs. []) example_gene_function ([] :: unit kwargs)
             = Inr (GeneFunction_function_issues example_gene_function
                    @ GeneFunction_details_issues example_gene_function
                    @ (case gf_mutation_phenotype example_gene_function of
                         None \<Rightarrow> []
                       | Some p \<Rightarrow> MutationPhenotype_validate (\<lambda>refs. []) p ([] :: unit kwargs))
                    @ concat (map (FunctionEvidence_validate (\<lambda>refs. []))
                                (gf_evidence example_gene_function)))"
    using t by simp
  show ?thesis
    unfolding m g
    by (simp add: example_module_def example_payload_def example_monomer_def example_gene_def
        example_gene_function_def kw_get_def GeneFunction_function_issues_def
        GeneFunction_details_issues_def GeneFunction_VALID_FUNCTIONS_def
        MutationPhenotype_validate_def FunctionEvidence_validate_def
        FunctionEvidence_VALID_METHODS_def)
qed

text \<open>
  C6 as stated fails: \<open>Module\<close> declares \<open>genes\<close> before \<open>extra_info\<close>, yet the issue of a
  gene identifier comes after those of the payload and of a monomer; \<open>GeneFunction\<close>
  declares \<open>evidence\<close> before \<open>mutation_phenotype\<close>, yet the issue of the evidence comes
  after that of the phenotype.
\<close>

theorem validate_order_counterexample:
  "Module_validate example_module [(''record'', KRecord [''geneA''])]
     \<noteq> Module_validate_declaration_order example_module [(''record'', KRecord [''geneA''])]
   \<and> GeneFunction_validate (\<lambda>refs. []) example_gene_function ([] :: unit kwargs)
     \<noteq> Inr (GeneFunction_validate_declaration_order (\<lambda>refs. []) example_gene_function)"
  by (simp add: example_module_def example_payload_def example_monomer_def example_gene_def
      example_gene_function_def kw_get_def Module_validate_def
      Module_validate_declaration_order_def GeneFunction_validate_eq
      GeneFunction_validate_declaration_order_def GeneFunction_function_issues_def
      GeneFunction_details_issues_def GeneFunction_VALID_FUNCTIONS_def
      MutationPhenotype_validate_def FunctionEvidence_validate_def
      FunctionEvidence_VALID_METHODS_def)

section \<open>Construction with and without validation\<close>

text \<open>
  C8. Construction with validation skipped should succeed on every input of the right
  shape, with no validation run in the object or its children. The code breaks this:
  \<open>GeneFunction.from_json(raw, validate=False)\<close> builds each evidence with
  \<open>FunctionEvidence.from_json(evidence)\<close> and the phenotype with
  \<open>MutationPhenotype.from_json(...)\<close> without passing \<open>**kwargs\<close> on, so both validate, and
  a raw input of the right shape with an invalid evidence method raises
  \<open>ValidationError\<close>. The constructor \<open>GeneFunction(...)\<close> with \<open>validate=False\<close> returns the
  object for the same fields, and \<open>NonCanonicalActivity.from_json\<close> and \<open>Module.from_json\<close>
  do pass \<open>**kwargs\<close> on to their children.
\<close>

theorem gene_function_from_json_validates_children:
  "GeneFunction_from_json (\<lambda>refs. []) (\<lambda>j. Inr (0 :: nat)) example_raw_gene_function
     ([(''validate'', KBool False)] :: unit kwargs)
     = Inl (ValidationError
              [ValidationErrorInfo ''method'' (FString ''Invalid method: '' (JStr ''bogus''))])
   \<and> GeneFunction_init (\<lambda>refs :: nat list. []) (JStr ''Regulator'')
        [\<lparr>fe_method = JStr ''bogus'', fe_references = []\<rparr>] JNull None False
        ([] :: unit kwargs)
     = Inr \<lparr>gf_function = JStr ''Regulator'',
            gf_evidence = [\<lparr>fe_method = JStr ''bogus'', fe_references = []\<rparr>],
            gf_details = JNull, gf_mutation_phenotype = None\<rparr>"
  by (simp add: example_raw_gene_function_def GeneFunction_from_json_def
      FunctionEvidence_from_json_def FunctionEvidence_init_def FunctionEvidence_validate_def
      FunctionEvidence_VALID_METHODS_def GeneFunction_init_def getitem_def subscript_def
      and_then_def kw_clash_def kw_rest_def kw_validate_def Let_def)

section \<open>The two modes of the constructors\<close>

text \<open>
  Each of the five constructors of the source supports both modes. With \<open>validate=False\<close>
  it always returns the object, on which \<open>validate\<close> can be called separately. With
  validation it returns that same object when \<open>validate\<close> finds no issue, and otherwise
  raises \<open>ValidationError\<close> with the whole list that \<open>validate\<close> returns (\<open>GeneFunction\<close>: or
  the \<open>TypeError\<close> that \<open>validate\<close> raises).
\<close>

theorem construction_modes:
  "Module_init mt nm gs act ei ims nca cm False kw
     = Inr \<lparr>module_type = mt, name = nm, genes = gs, active = act, extra_info = ei,
            integrated_monomers = ims, non_canonical_activity = nca, comment = cm\<rparr>
   \<and> Module_init mt nm gs act ei ims nca cm True kw
     = (let m = \<lparr>module_type = mt, name = nm, genes = gs, active = act, extra_info = ei,
                 integrated_monomers = ims, non_canonical_activity = nca, comment = cm\<rparr>
        in if Module_validate m kw = [] then Inr m
           else Inl (ValidationError (Module_validate m kw)))
   \<and> GeneFunction_init vcl fn ev det mp False kw'
     = Inr \<lparr>gf_function = fn, gf_evidence = ev, gf_details = det, gf_mutation_phenotype = mp\<rparr>
   \<and> GeneFunction_init vcl fn ev det mp True kw'
     = (let g = \<lparr>gf_function = fn, gf_evidence = ev, gf_details = det,
                 gf_mutation_phenotype = mp\<rparr>
        in case GeneFunction_validate vcl g kw' of
             Inl e \<Rightarrow> Inl e
           | Inr errors \<Rightarrow> if errors = [] then Inr g else Inl (ValidationError errors))
   \<and> NonCanonicalActivity_init evs it ne sk False kw
     = Inr \<lparr>evidence = evs, iterations = it, non_elongating = ne, skipped = sk\<rparr>
   \<and> NonCanonicalActivity_init evs it ne sk True kw
     = (let a = \<lparr>evidence = evs, iterations = it, non_elongating = ne, skipped = sk\<rparr>
        in if NonCanonicalActivity_validate a kw = [] then Inr a
           else Inl (ValidationError (NonCanonicalActivity_validate a kw)))
   \<and> FunctionEvidence_init vcl method refs False
     = Inr \<lparr>fe_method = method, fe_references = refs\<rparr>
   \<and> FunctionEvidence_init vcl method refs True
     = (let e = \<lparr>fe_method = method, fe_references = refs\<rparr>
        in if FunctionEvidence_validate vcl e = [] then Inr e
           else Inl (ValidationError (FunctionEvidence_validate vcl e)))
   \<and> MutationPhenotype_init vcl ph refs det' False kw'
     = Inr \<lparr>phenotype = ph, mp_details = det', mp_references = refs\<rparr>
   \<and> MutationPhenotype_init vcl ph refs det' True kw'
     = (let p = \<lparr>phenotype = ph, mp_details = det', mp_references = refs\<rparr>
        in if MutationPhenotype_validate vcl p kw' = [] then Inr p
           else Inl (ValidationError (MutationPhenotype_validate vcl p kw')))"
  by (simp add: Module_init_def GeneFunction_init_def NonCanonicalActivity_init_def
      FunctionEvidence_init_def MutationPhenotype_init_def and_then_def Let_def
      split: sum.splits)

theorem construction_modes_witness:
  "Module_init CAL (JStr ''m1'') [example_gene ''geneB''] (JBool True)
     (example_payload [] [] :: (nat, string list) ExtraInfo) [] None JNull True
     [(''record'', KRecord [''geneA''])]
     = Inl (ValidationError
              [ValidationErrorInfo ''CAL.subtype'' (Text ''Subtype must be provided''),
               ValidationErrorInfo ''GeneId'' (FString ''Unknown gene: '' (JStr ''geneB''))])
   \<and> isl (GeneFunction_init (\<lambda>refs :: nat list. []) (JStr ''Regulator'')
            [\<lparr>fe_method = JStr ''bogus'', fe_references = []\<rparr>] JNull None True
            ([] :: unit kwargs))
   \<and> GeneFunction_init (\<lambda>refs :: nat list. []) (JStr ''Regulator'')
        [\<lparr>fe_method = JStr ''bogus'', fe_references = []\<rparr>] JNull None False
        ([] :: unit kwargs)
     = Inr \<lparr>gf_function = JStr ''Regulator'',
            gf_evidence = [\<lparr>fe_method = JStr ''bogus'', fe_references = []\<rparr>],
            gf_details = JNull, gf_mutation_phenotype = None\<rparr>"
proof -
  note t = construction_modes
    [of CAL "JStr ''m1''" "[example_gene ''geneB'']" "JBool True"
        "example_payload [] [] :: (nat, string list) ExtraInfo" "[]"
        None JNull "[(''record'', KRecord [''geneA''])]" "\<lambda>refs :: nat list. []"
        "JStr ''Regulator''" "[\<lparr>fe_method = JStr ''bogus'', fe_references = []\<rparr>]" JNull None
        "[] :: unit kwargs"]
  have v: "Module_validate
             \<lparr>module_type = CAL, name = JStr ''m1'', genes = [example_gene ''geneB''],
              active = JBool True,
              extra_info = (example_payload [] [] :: (nat, string list) ExtraInfo),
              integrated_monomers = [], non_canonical_activity = None, comment = JNull\<rparr>
             [(''record'', KRecord [''geneA''])]
           = [ValidationErrorInfo ''CAL.subtype'' (Text ''Subtype must be provided''),
              ValidationErrorInfo ''GeneId'' (FString ''Unknown gene: '' (JStr ''geneB''))]"
    by (simp add: Module_validate_def example_payload_def example_gene_def kw_get_def)
  have w: "GeneFunction_validate (\<lambda>refs :: nat list. [])
             \<lparr>gf_function = JStr ''Regulator'',
              gf_evidence = [\<lparr>fe_method = JStr ''bogus'', fe_references = []\<rparr>],
              gf_details = JNull, gf_mutation_phenotype = None\<rparr> ([] :: unit kwargs)
           = Inr [ValidationErrorInfo ''GeneFunction.function''
                    (FString ''Invalid function: '' (JStr ''Regulator'')),
                  ValidationErrorInfo ''method''
                    (FString ''Invalid method: '' (JStr ''bogus''))]"
    by (simp add: GeneFunction_validate_eq GeneFunction_function_issues_def
        GeneFunction_details_issues_def GeneFunction_VALID_FUNCTIONS_def
        FunctionEvidence_validate_def FunctionEvidence_VALID_METHODS_def)
  show ?thesis
    using t by (simp add: v w Let_def)
qed

end
